theory Spec2Isabelle
  imports Complex_Main "HOL-Library.Word"
begin

unbundle bit_operations_syntax

section \<open>Data model\<close>

text \<open>
  Go's \<open>uint64\<close> and \<open>int64\<close> are 64-bit words (\<open>+\<close> wraps, \<open>-1\<close> is the all-ones word).
  \<open>float64\<close> arithmetic belongs to the language and \<open>histogram.FloatHistogram\<close> to the
  Prometheus library: both are kept abstract, as a type variable with a record of the
  operations the source calls.
\<close>

type_synonym u64 = "64 word"
type_synonym i64 = "64 word"

record 'f float64_ops =
  f_zero :: 'f
  f_one :: 'f
  f_half :: 'f
  f_nan :: 'f
  f_add :: "'f \<Rightarrow> 'f \<Rightarrow> 'f"
  f_sub :: "'f \<Rightarrow> 'f \<Rightarrow> 'f"
  f_mul :: "'f \<Rightarrow> 'f \<Rightarrow> 'f"
  f_div :: "'f \<Rightarrow> 'f \<Rightarrow> 'f"
  f_pow :: "'f \<Rightarrow> 'f \<Rightarrow> 'f"
  f_mod :: "'f \<Rightarrow> 'f \<Rightarrow> 'f"
  f_atan2 :: "'f \<Rightarrow> 'f \<Rightarrow> 'f"
  f_floor :: "'f \<Rightarrow> 'f"
  f_eq :: "'f \<Rightarrow> 'f \<Rightarrow> bool"
  f_lt :: "'f \<Rightarrow> 'f \<Rightarrow> bool"
  f_gt :: "'f \<Rightarrow> 'f \<Rightarrow> bool"
  f_le :: "'f \<Rightarrow> 'f \<Rightarrow> bool"
  f_ge :: "'f \<Rightarrow> 'f \<Rightarrow> bool"

text \<open>
  The methods of \<open>*histogram.FloatHistogram\<close> used by the source. \<open>Add\<close> and \<open>Sub\<close>
  return an error for incompatible operands; \<open>Compact\<close> takes the number of empty
  buckets it tolerates.
\<close>

record ('f, 'h) histogram_ops =
  h_Copy :: "'h \<Rightarrow> 'h"
  h_Mul :: "'h \<Rightarrow> 'f \<Rightarrow> 'h"
  h_Div :: "'h \<Rightarrow> 'f \<Rightarrow> 'h"
  h_Add :: "'h \<Rightarrow> 'h \<Rightarrow> string + 'h"
  h_Sub :: "'h \<Rightarrow> 'h \<Rightarrow> string + 'h"
  h_Equals :: "'h \<Rightarrow> 'h \<Rightarrow> bool"
  h_Compact :: "nat \<Rightarrow> 'h \<Rightarrow> 'h"

type_synonym Labels = "(string \<times> string) list"

datatype BinOpSide = lhBinOpSide | rhBinOpSide

text \<open>
  Errors are values. \<open>CtxErr\<close> is what \<open>ctx.Err()\<close> returns, \<open>ChildErr\<close> an error of a
  child operator, \<open>Panic\<close> a run-time panic (index out of range, the final \<open>panic\<close> of
  \<open>vectorElemBinop\<close>).
\<close>

datatype error =
    CtxErr string
  | ChildErr string
  | ErrDuplicateLabelSet
  | ManyToManyMatch BinOpSide Labels Labels
  | ImplicitManyToOne
  | UnexpectedCardinality
  | Panic

text \<open>A context is cancelled exactly when its \<open>Done\<close> channel is closed; then \<open>Err\<close> is set.\<close>

type_synonym Context = "string option"

record ('f, 'h) StepVector =
  T :: i64
  SampleIDs :: "u64 list"
  Samples :: "'f list"
  HistogramIDs :: "u64 list"
  Histograms :: "'h option list"

text \<open>
  Modelled from the spec: the step-vector helpers of package \<open>model\<close> (\<open>GetStepVector\<close>,
  \<open>AppendSample\<close>, \<open>AppendHistogram\<close>) are not among the sources. A step vector is a
  timestamp with parallel arrays of sample IDs and values and of histogram IDs and
  histograms; a fresh one is empty and appending extends both arrays of a pair.
\<close>

definition GetStepVector :: "i64 \<Rightarrow> ('f, 'h) StepVector" where
  "GetStepVector ts =
     \<lparr>T = ts, SampleIDs = [], Samples = [], HistogramIDs = [], Histograms = []\<rparr>"

definition AppendSample :: "('f, 'h) StepVector \<Rightarrow> u64 \<Rightarrow> 'f \<Rightarrow> ('f, 'h) StepVector" where
  "AppendSample s i v = s\<lparr>SampleIDs := SampleIDs s @ [i], Samples := Samples s @ [v]\<rparr>"

definition AppendHistogram ::
  "('f, 'h) StepVector \<Rightarrow> u64 \<Rightarrow> 'h option \<Rightarrow> ('f, 'h) StepVector" where
  "AppendHistogram s i h = s\<lparr>HistogramIDs := HistogramIDs s @ [i], Histograms := Histograms s @ [h]\<rparr>"

text \<open>Indexing a slice panics out of range.\<close>

definition index :: "'a list \<Rightarrow> nat \<Rightarrow> error + 'a" where
  "index xs i = (if i < length xs then Inr (xs ! i) else Inl Panic)"

section \<open>Function operators: \<open>scalar\<close> and \<open>absent\<close>\<close>

text \<open>
  A child operator is an input of the model: what its \<open>Next\<close> returns on this call, an
  error or a batch. The pools only recycle buffers and are not modelled.
\<close>

definition scalarOperator_Series :: "Context \<Rightarrow> error + Labels list" where
  "scalarOperator_Series ctx = Inr []"

definition scalarOperator_step :: "'f float64_ops \<Rightarrow> ('f, 'h) StepVector \<Rightarrow> ('f, 'h) StepVector" where
  "scalarOperator_step F vector =
     (if length (Samples vector) \<noteq> 1
      then AppendSample (GetStepVector (T vector)) 0 (f_nan F)
      else AppendSample (GetStepVector (T vector)) 0 (Samples vector ! 0))"

definition scalarOperator_Next ::
  "'f float64_ops \<Rightarrow> Context \<Rightarrow> (error + ('f, 'h) StepVector list) \<Rightarrow>
   error + ('f, 'h) StepVector list" where
  "scalarOperator_Next F ctx child =
     (case ctx of
        Some e \<Rightarrow> Inl (CtxErr e)
      | None \<Rightarrow>
         (case child of
            Inl err \<Rightarrow> Inl err
          | Inr inp \<Rightarrow>
             if length inp = 0 then Inr []
             else Inr (map (scalarOperator_step F) inp)))"

text \<open>
  \<open>absentOperator.loadSeries\<close>: the argument of the call is a vector selector, a matrix
  selector or something else; the label builder starts empty, \<open>Set\<close> binds a name and
  \<open>Del\<close> removes it.
\<close>

datatype MatchType = MatchEqual | MatchNotEqual | MatchRegexp | MatchNotRegexp

record Matcher =
  m_Type :: MatchType
  m_Name :: string
  m_Value :: string

datatype Arg =
    VectorSelector "Matcher list" "Matcher list"
  | MatrixSelector "Matcher list" "Matcher list"
  | OtherArg

definition MetricName :: string where
  "MetricName = ''__name__''"

definition b_Set :: "string \<Rightarrow> string \<Rightarrow> Labels \<Rightarrow> Labels" where
  "b_Set n v b = filter (\<lambda>(k, _). k \<noteq> n) b @ (if v = [] then [] else [(n, v)])"

definition b_Del :: "string \<Rightarrow> Labels \<Rightarrow> Labels" where
  "b_Del n b = filter (\<lambda>(k, _). k \<noteq> n) b"

fun absent_matchers :: "Matcher list \<Rightarrow> string set \<Rightarrow> Labels \<Rightarrow> Labels" where
  "absent_matchers [] has b = b"
| "absent_matchers (l # lm) has b =
     (if m_Name l = MetricName then absent_matchers lm has b
      else if m_Type l = MatchEqual \<and> m_Name l \<notin> has
        then absent_matchers lm (insert (m_Name l) has) (b_Set (m_Name l) (m_Value l) b)
      else absent_matchers lm has (b_Del (m_Name l) b))"

definition absentOperator_loadSeries :: "Arg \<Rightarrow> Labels list" where
  "absentOperator_loadSeries arg =
     (case arg of
        VectorSelector ms fs \<Rightarrow> [absent_matchers (ms @ fs) {} []]
      | MatrixSelector ms fs \<Rightarrow> [absent_matchers (ms @ fs) {} []]
      | OtherArg \<Rightarrow> [[]])"

definition absentOperator_Series :: "Arg \<Rightarrow> Context \<Rightarrow> error + Labels list" where
  "absentOperator_Series arg ctx = Inr (absentOperator_loadSeries arg)"

definition absentOperator_step :: "'f float64_ops \<Rightarrow> ('f, 'h) StepVector \<Rightarrow> ('f, 'h) StepVector" where
  "absentOperator_step F v =
     (if length (Samples v) = 0 \<and> length (Histograms v) = 0
      then AppendSample (GetStepVector (T v)) 0 (f_one F)
      else GetStepVector (T v))"

definition absentOperator_Next ::
  "'f float64_ops \<Rightarrow> Context \<Rightarrow> (error + ('f, 'h) StepVector list) \<Rightarrow>
   error + ('f, 'h) StepVector list" where
  "absentOperator_Next F ctx child =
     (case ctx of
        Some e \<Rightarrow> Inl (CtxErr e)
      | None \<Rightarrow>
         (case child of
            Inl err \<Rightarrow> Inl err
          | Inr vectors \<Rightarrow>
             if length vectors = 0 then Inr []
             else Inr (map (absentOperator_step F) vectors)))"

section \<open>Instant functions\<close>

text \<open>\<open>instantVectorFuncs["round"]\<close>; \<open>vargs\<close> are the optional arguments of the call.\<close>

definition instantVectorFuncs_round ::
  "'f float64_ops \<Rightarrow> 'f \<Rightarrow> 'h option \<Rightarrow> 'f list \<Rightarrow> 'f \<times> bool" where
  "instantVectorFuncs_round F f h vargs =
     (if h \<noteq> None then (f_zero F, False)
      else if length vargs > 1 then (f_zero F, False)
      else
        let toNearest = (if length vargs > 0 then vargs ! 0 else f_one F);
            toNearestInverse = f_div F (f_one F) toNearest
        in (f_div F (f_floor F (f_add F (f_mul F f toNearestInverse) (f_half F))) toNearestInverse,
            True))"

section \<open>The binary kernel \<open>vectorElemBinop\<close>\<close>

text \<open>
  The operator item types of the parser that the binary operators dispatch on;
  \<open>OtherItem\<close> stands for every other item type.
\<close>

datatype ItemType =
    ADD | SUB | MUL | DIV | POW | MOD
  | EQLC | NEQ | GTR | LSS | GTE | LTE
  | ATAN2 | LAND | LOR | LUNLESS | OtherItem

text \<open>
  Non-fatal annotations: \<open>NewIncompatibleTypesInBinOpInfo\<close> with the kinds of the two
  operands, and the error of a histogram \<open>Add\<close> or \<open>Sub\<close>.
\<close>

datatype annotation =
    IncompatibleTypesInBinOp string ItemType string
  | HistogramErr string

type_synonym ('f, 'h) binop_result = "error + ('f \<times> 'h option \<times> bool \<times> annotation option)"

definition incompatible :: "'f float64_ops \<Rightarrow> string \<Rightarrow> ItemType \<Rightarrow> string \<Rightarrow> ('f, 'h) binop_result" where
  "incompatible F l op r = Inr (f_zero F, None, False, Some (IncompatibleTypesInBinOp l op r))"

definition vectorElemBinop ::
  "'f float64_ops \<Rightarrow> ('f, 'h) histogram_ops \<Rightarrow> ItemType \<Rightarrow> 'f \<Rightarrow> 'f \<Rightarrow>
   'h option \<Rightarrow> 'h option \<Rightarrow> ('f, 'h) binop_result" where
  "vectorElemBinop F H op lhs rhs hlhs hrhs =
     (case (hlhs, hrhs) of
        (None, None) \<Rightarrow>
          (case op of
             ADD \<Rightarrow> Inr (f_add F lhs rhs, None, True, None)
           | SUB \<Rightarrow> Inr (f_sub F lhs rhs, None, True, None)
           | MUL \<Rightarrow> Inr (f_mul F lhs rhs, None, True, None)
           | DIV \<Rightarrow> Inr (f_div F lhs rhs, None, True, None)
           | POW \<Rightarrow> Inr (f_pow F lhs rhs, None, True, None)
           | MOD \<Rightarrow> Inr (f_mod F lhs rhs, None, True, None)
           | EQLC \<Rightarrow> Inr (lhs, None, f_eq F lhs rhs, None)
           | NEQ \<Rightarrow> Inr (lhs, None, \<not> f_eq F lhs rhs, None)
           | GTR \<Rightarrow> Inr (lhs, None, f_gt F lhs rhs, None)
           | LSS \<Rightarrow> Inr (lhs, None, f_lt F lhs rhs, None)
           | GTE \<Rightarrow> Inr (lhs, None, f_ge F lhs rhs, None)
           | LTE \<Rightarrow> Inr (lhs, None, f_le F lhs rhs, None)
           | ATAN2 \<Rightarrow> Inr (f_atan2 F lhs rhs, None, True, None)
           | _ \<Rightarrow> Inl Panic)
      | (None, Some hr) \<Rightarrow>
          (case op of
             MUL \<Rightarrow> Inr (f_zero F, Some (h_Compact H 0 (h_Mul H (h_Copy H hr) lhs)), True, None)
           | LAND \<Rightarrow> Inl Panic
           | LOR \<Rightarrow> Inl Panic
           | LUNLESS \<Rightarrow> Inl Panic
           | OtherItem \<Rightarrow> Inl Panic
           | _ \<Rightarrow> incompatible F ''float'' op ''histogram'')
      | (Some hl, None) \<Rightarrow>
          (case op of
             MUL \<Rightarrow> Inr (f_zero F, Some (h_Compact H 0 (h_Mul H (h_Copy H hl) rhs)), True, None)
           | DIV \<Rightarrow> Inr (f_zero F, Some (h_Compact H 0 (h_Div H (h_Copy H hl) rhs)), True, None)
           | LAND \<Rightarrow> Inl Panic
           | LOR \<Rightarrow> Inl Panic
           | LUNLESS \<Rightarrow> Inl Panic
           | OtherItem \<Rightarrow> Inl Panic
           | _ \<Rightarrow> incompatible F ''histogram'' op ''float'')
      | (Some hl, Some hr) \<Rightarrow>
          (case op of
             ADD \<Rightarrow>
               (case h_Add H (h_Copy H hl) hr of
                  Inl err \<Rightarrow> Inr (f_zero F, None, False, Some (HistogramErr err))
                | Inr res \<Rightarrow> Inr (f_zero F, Some (h_Compact H 0 res), True, None))
           | SUB \<Rightarrow>
               (case h_Sub H (h_Copy H hl) hr of
                  Inl err \<Rightarrow> Inr (f_zero F, None, False, Some (HistogramErr err))
                | Inr res \<Rightarrow> Inr (f_zero F, Some (h_Compact H 0 res), True, None))
           | EQLC \<Rightarrow> Inr (f_zero F, Some hl, h_Equals H hl hr, None)
           | NEQ \<Rightarrow> Inr (f_zero F, Some hl, \<not> h_Equals H hl hr, None)
           | LAND \<Rightarrow> Inl Panic
           | LOR \<Rightarrow> Inl Panic
           | LUNLESS \<Rightarrow> Inl Panic
           | OtherItem \<Rightarrow> Inl Panic
           | _ \<Rightarrow> incompatible F ''histogram'' op ''histogram''))"

section \<open>The duplicate-label check\<close>

text \<open>
  The operator's state: whether the one-shot initialiser has run, the recorded pairs
  \<open>p\<close> of series indices with equal label-set hash, and the bit masks \<open>c\<close>, one per
  series. \<open>Labels.Hash\<close> is the Prometheus library's and is a parameter.
\<close>

record duplicateLabelCheckOperator =
  once_done :: bool
  p :: "(nat \<times> nat) list"
  c :: "u64 list"

text \<open>The loop of \<open>init\<close> over the series: \<open>i\<close> is the index of the head of the list.\<close>

fun init_pairs ::
  "(Labels \<Rightarrow> u64) \<Rightarrow> Labels list \<Rightarrow> nat \<Rightarrow> (u64 \<rightharpoonup> nat) \<Rightarrow> (nat \<times> nat) list \<Rightarrow> (nat \<times> nat) list" where
  "init_pairs hash [] i m ps = ps"
| "init_pairs hash (s # series) i m ps =
     (case m (hash s) of
        Some j \<Rightarrow> init_pairs hash series (Suc i) m (ps @ [(i, j)])
      | None \<Rightarrow> init_pairs hash series (Suc i) (m(hash s \<mapsto> i)) ps)"

text \<open>
  \<open>sync.Once\<close> runs the initialiser on the first call only, also when it fails: a later
  call returns no error and leaves \<open>p\<close> and \<open>c\<close> as they are.
\<close>

definition duplicateLabelCheckOperator_init ::
  "(Labels \<Rightarrow> u64) \<Rightarrow> (error + Labels list) \<Rightarrow> duplicateLabelCheckOperator \<Rightarrow>
   error option \<times> duplicateLabelCheckOperator" where
  "duplicateLabelCheckOperator_init hash childSeries d =
     (if once_done d then (None, d)
      else
        (case childSeries of
           Inl seriesErr \<Rightarrow> (Some seriesErr, d\<lparr>once_done := True\<rparr>)
         | Inr series \<Rightarrow>
             (None, d\<lparr>once_done := True,
                      p := init_pairs hash series 0 Map.empty [],
                      c := replicate (length series) 0\<rparr>)))"

fun clear_pairs :: "(nat \<times> nat) list \<Rightarrow> u64 list \<Rightarrow> error + u64 list" where
  "clear_pairs [] cs = Inr cs"
| "clear_pairs ((a, b) # ps) cs =
     (if a < length cs \<and> b < length cs then clear_pairs ps (cs[a := 0, b := 0])
      else Inl Panic)"

text \<open>\<open>d.c[sid] |= 2 << i\<close> for the sample IDs of the step at batch position \<open>i\<close>.\<close>

fun mark_ids :: "nat \<Rightarrow> u64 list \<Rightarrow> u64 list \<Rightarrow> error + u64 list" where
  "mark_ids i [] cs = Inr cs"
| "mark_ids i (sid # sids) cs =
     (if unat sid < length cs
      then mark_ids i sids (cs[unat sid := (cs ! unat sid) OR push_bit i 2])
      else Inl Panic)"

fun mark_steps :: "nat \<Rightarrow> ('f, 'h) StepVector list \<Rightarrow> u64 list \<Rightarrow> error + u64 list" where
  "mark_steps i [] cs = Inr cs"
| "mark_steps i (sv # svs) cs =
     (case mark_ids i (SampleIDs sv) cs of
        Inl e \<Rightarrow> Inl e
      | Inr cs' \<Rightarrow> mark_steps (Suc i) svs cs')"

fun check_pairs :: "(nat \<times> nat) list \<Rightarrow> u64 list \<Rightarrow> error option" where
  "check_pairs [] cs = None"
| "check_pairs ((a, b) # ps) cs =
     (if a < length cs \<and> b < length cs
      then (if (cs ! a) AND (cs ! b) > 0 then Some ErrDuplicateLabelSet else check_pairs ps cs)
      else Some Panic)"

text \<open>
  \<open>Next\<close>. The child's \<open>Series\<close> and \<open>Next\<close> results are inputs. A nil batch and an
  empty batch are both \<open>[]\<close>: on an empty batch the source only clears the masks of the
  recorded pairs, which every call does before it reads them.
\<close>

definition duplicateLabelCheckOperator_Next ::
  "(Labels \<Rightarrow> u64) \<Rightarrow> Context \<Rightarrow> (error + Labels list) \<Rightarrow> (error + ('f, 'h) StepVector list) \<Rightarrow>
   duplicateLabelCheckOperator \<Rightarrow>
   (error + ('f, 'h) StepVector list) \<times> duplicateLabelCheckOperator" where
  "duplicateLabelCheckOperator_Next hash ctx childSeries childNext d =
     (case ctx of
        Some e \<Rightarrow> (Inl (CtxErr e), d)
      | None \<Rightarrow>
         (case duplicateLabelCheckOperator_init hash childSeries d of
            (Some err, d') \<Rightarrow> (Inl err, d')
          | (None, d') \<Rightarrow>
             (case childNext of
                Inl err \<Rightarrow> (Inl err, d')
              | Inr inp \<Rightarrow>
                 if inp = [] then (Inr [], d')
                 else if length (p d') > 0 then
                   (case clear_pairs (p d') (c d') of
                      Inl e \<Rightarrow> (Inl e, d')
                    | Inr c0 \<Rightarrow>
                       (case mark_steps 0 inp c0 of
                          Inl e \<Rightarrow> (Inl e, d'\<lparr>c := c0\<rparr>)
                        | Inr c1 \<Rightarrow>
                           (case check_pairs (p d') c1 of
                              Some e \<Rightarrow> (Inl e, d'\<lparr>c := c1\<rparr>)
                            | None \<Rightarrow> (Inr inp, d'\<lparr>c := c1\<rparr>))))
                 else (Inr inp, d'))))"

text \<open>\<open>Series\<close> runs the initialiser and forwards the child's series.\<close>

definition duplicateLabelCheckOperator_Series ::
  "(Labels \<Rightarrow> u64) \<Rightarrow> Context \<Rightarrow> (error + Labels list) \<Rightarrow> duplicateLabelCheckOperator \<Rightarrow>
   (error + Labels list) \<times> duplicateLabelCheckOperator" where
  "duplicateLabelCheckOperator_Series hash ctx childSeries d =
     (case duplicateLabelCheckOperator_init hash childSeries d of
        (Some err, d') \<Rightarrow> (Inl err, d')
      | (None, d') \<Rightarrow>
         (case childSeries of
            Inl err \<Rightarrow> (Inl err, d')
          | Inr series \<Rightarrow> (Inr series, d')))"

section \<open>The vector-vector binary operator\<close>

datatype VectorMatchCardinality = CardOneToOne | CardManyToOne | CardOneToMany | CardManyToMany

record ('f, 'h) joinBucket =
  ats :: i64
  bts :: i64
  sid :: u64
  hid :: u64
  val :: 'f
  hval :: "'h option"

text \<open>
  The operator. \<open>lcJoinBuckets\<close> and \<open>hcJoinBuckets\<close> hold pointers to join buckets, and
  two series with the same signature share one bucket: the buckets live in a store,
  \<open>buckets\<close>, and a pointer is an address in it. \<open>outputMap\<close> is the \<open>umap\<close> from pairing
  codes to output series; \<open>Card\<close> is \<open>matching.Card\<close>.
\<close>

record ('f, 'h) vectorOperator =
  once :: bool
  lhsSampleIDs :: "Labels list"
  rhsSampleIDs :: "Labels list"
  series :: "Labels list"
  lcJoinBuckets :: "nat list"
  hcJoinBuckets :: "nat list"
  buckets :: "nat \<Rightarrow> ('f, 'h) joinBucket"
  outputMap :: "u64 \<rightharpoonup> u64"
  Card :: VectorMatchCardinality
  opType :: ItemType
  returnBool :: bool

definition cantorPairing :: "u64 \<Rightarrow> u64 \<Rightarrow> u64" where
  "cantorPairing hc lc = (hc + lc) * (hc + lc + 1) div 2 + lc"

text \<open>\<open>Load\<close> on a missing key gives the zero value; the source drops the flag.\<close>

definition outputSeriesID :: "('f, 'h) vectorOperator \<Rightarrow> u64 \<Rightarrow> u64 \<Rightarrow> u64" where
  "outputSeriesID v hc lc = (case outputMap v (cantorPairing hc lc) of Some res \<Rightarrow> res | None \<Rightarrow> 0)"

definition setBucket ::
  "('f, 'h) vectorOperator \<Rightarrow> nat \<Rightarrow> (('f, 'h) joinBucket \<Rightarrow> ('f, 'h) joinBucket) \<Rightarrow>
   ('f, 'h) vectorOperator" where
  "setBucket v jp upd = v\<lparr>buckets := (buckets v)(jp := upd (buckets v jp))\<rparr>"

text \<open>
  \<open>for i, x := range xs { body }\<close> with a body that may return an error: the state is
  threaded through the iterations and the first error ends the loop. A fatal error ends
  the query, so no state is kept with it.
\<close>

fun for_range :: "(nat \<Rightarrow> 'a \<Rightarrow> 's \<Rightarrow> error + 's) \<Rightarrow> nat \<Rightarrow> 'a list \<Rightarrow> 's \<Rightarrow> error + 's" where
  "for_range body i [] s = Inr s"
| "for_range body i (x # xs) s =
     (case body i x s of
        Inl e \<Rightarrow> Inl e
      | Inr s' \<Rightarrow> for_range body (Suc i) xs s')"

text \<open>
  The state of a step in progress: the operator (for its buckets), the output step and
  the warnings of the query. Modelled from the spec: \<open>warnings.AddToContext\<close> is not
  among the sources; a non-nil annotation is attached to the per-query warnings sink.
\<close>

type_synonym ('f, 'h) exec_state =
  "('f, 'h) vectorOperator \<times> ('f, 'h) StepVector \<times> annotation list"

definition AddToContext :: "annotation option \<Rightarrow> annotation list \<Rightarrow> annotation list" where
  "AddToContext err ws = (case err of None \<Rightarrow> ws | Some a \<Rightarrow> ws @ [a])"

subsection \<open>\<open>and\<close>, \<open>or\<close>, \<open>unless\<close>\<close>

definition and_mark :: "i64 \<Rightarrow> nat \<Rightarrow> u64 \<Rightarrow> ('f, 'h) exec_state \<Rightarrow> error + ('f, 'h) exec_state" where
  "and_mark ts i sampleID s =
     (case s of (v, step, ws) \<Rightarrow>
        (case index (lcJoinBuckets v) (unat sampleID) of
           Inl e \<Rightarrow> Inl e
         | Inr jp \<Rightarrow> Inr (setBucket v jp (\<lambda>b. b\<lparr>sid := sampleID, ats := ts\<rparr>), step, ws)))"

definition and_emit ::
  "i64 \<Rightarrow> ('f, 'h) StepVector \<Rightarrow> nat \<Rightarrow> u64 \<Rightarrow> ('f, 'h) exec_state \<Rightarrow> error + ('f, 'h) exec_state" where
  "and_emit ts lhs i sampleID s =
     (case s of (v, step, ws) \<Rightarrow>
        (case index (hcJoinBuckets v) (unat sampleID) of
           Inl e \<Rightarrow> Inl e
         | Inr jp \<Rightarrow>
            if ats (buckets v jp) = ts then
              (case index (Samples lhs) i of
                 Inl e \<Rightarrow> Inl e
               | Inr x \<Rightarrow>
                  Inr (v, AppendSample step
                            (outputSeriesID v (sampleID + 1) (sid (buckets v jp) + 1)) x, ws))
            else Inr (v, step, ws)))"

definition execBinaryAnd ::
  "('f, 'h) vectorOperator \<Rightarrow> ('f, 'h) StepVector \<Rightarrow> ('f, 'h) StepVector \<Rightarrow> annotation list \<Rightarrow>
   error + ('f, 'h) exec_state" where
  "execBinaryAnd v lhs rhs ws =
     (let ts = T lhs; step = GetStepVector ts in
      case for_range (and_mark ts) 0 (SampleIDs rhs) (v, step, ws) of
        Inl e \<Rightarrow> Inl e
      | Inr s \<Rightarrow> for_range (and_emit ts lhs) 0 (SampleIDs lhs) s)"

definition or_left ::
  "i64 \<Rightarrow> ('f, 'h) StepVector \<Rightarrow> nat \<Rightarrow> u64 \<Rightarrow> ('f, 'h) exec_state \<Rightarrow> error + ('f, 'h) exec_state" where
  "or_left ts lhs i sampleID s =
     (case s of (v, step, ws) \<Rightarrow>
        (case index (hcJoinBuckets v) (unat sampleID) of
           Inl e \<Rightarrow> Inl e
         | Inr jp \<Rightarrow>
            (case index (Samples lhs) i of
               Inl e \<Rightarrow> Inl e
             | Inr x \<Rightarrow>
                Inr (setBucket v jp (\<lambda>b. b\<lparr>ats := ts\<rparr>),
                     AppendSample step (outputSeriesID v (sampleID + 1) 0) x, ws))))"

definition or_right ::
  "i64 \<Rightarrow> ('f, 'h) StepVector \<Rightarrow> nat \<Rightarrow> u64 \<Rightarrow> ('f, 'h) exec_state \<Rightarrow> error + ('f, 'h) exec_state" where
  "or_right ts rhs i sampleID s =
     (case s of (v, step, ws) \<Rightarrow>
        (case index (lcJoinBuckets v) (unat sampleID) of
           Inl e \<Rightarrow> Inl e
         | Inr jp \<Rightarrow>
            if ats (buckets v jp) \<noteq> ts then
              (case index (Samples rhs) i of
                 Inl e \<Rightarrow> Inl e
               | Inr x \<Rightarrow> Inr (v, AppendSample step (outputSeriesID v 0 (sampleID + 1)) x, ws))
            else Inr (v, step, ws)))"

definition execBinaryOr ::
  "('f, 'h) vectorOperator \<Rightarrow> ('f, 'h) StepVector \<Rightarrow> ('f, 'h) StepVector \<Rightarrow> annotation list \<Rightarrow>
   error + ('f, 'h) exec_state" where
  "execBinaryOr v lhs rhs ws =
     (let ts = T lhs; step = GetStepVector ts in
      case for_range (or_left ts lhs) 0 (SampleIDs lhs) (v, step, ws) of
        Inl e \<Rightarrow> Inl e
      | Inr s \<Rightarrow> for_range (or_right ts rhs) 0 (SampleIDs rhs) s)"

definition unless_mark :: "i64 \<Rightarrow> nat \<Rightarrow> u64 \<Rightarrow> ('f, 'h) exec_state \<Rightarrow> error + ('f, 'h) exec_state" where
  "unless_mark ts i sampleID s =
     (case s of (v, step, ws) \<Rightarrow>
        (case index (lcJoinBuckets v) (unat sampleID) of
           Inl e \<Rightarrow> Inl e
         | Inr jp \<Rightarrow> Inr (setBucket v jp (\<lambda>b. b\<lparr>ats := ts\<rparr>), step, ws)))"

definition unless_emit ::
  "i64 \<Rightarrow> ('f, 'h) StepVector \<Rightarrow> nat \<Rightarrow> u64 \<Rightarrow> ('f, 'h) exec_state \<Rightarrow> error + ('f, 'h) exec_state" where
  "unless_emit ts lhs i sampleID s =
     (case s of (v, step, ws) \<Rightarrow>
        (case index (hcJoinBuckets v) (unat sampleID) of
           Inl e \<Rightarrow> Inl e
         | Inr jp \<Rightarrow>
            if ats (buckets v jp) \<noteq> ts then
              (case index (Samples lhs) i of
                 Inl e \<Rightarrow> Inl e
               | Inr x \<Rightarrow> Inr (v, AppendSample step (outputSeriesID v (sampleID + 1) 0) x, ws))
            else Inr (v, step, ws)))"

definition execBinaryUnless ::
  "('f, 'h) vectorOperator \<Rightarrow> ('f, 'h) StepVector \<Rightarrow> ('f, 'h) StepVector \<Rightarrow> annotation list \<Rightarrow>
   error + ('f, 'h) exec_state" where
  "execBinaryUnless v lhs rhs ws =
     (let ts = T lhs; step = GetStepVector ts in
      case for_range (unless_mark ts) 0 (SampleIDs rhs) (v, step, ws) of
        Inl e \<Rightarrow> Inl e
      | Inr s \<Rightarrow> for_range (unless_emit ts lhs) 0 (SampleIDs lhs) s)"

subsection \<open>Arithmetic and comparison\<close>

definition computeBinaryPairing ::
  "'f float64_ops \<Rightarrow> ('f, 'h) histogram_ops \<Rightarrow> ('f, 'h) vectorOperator \<Rightarrow> 'f \<Rightarrow> 'f \<Rightarrow>
   'h option \<Rightarrow> 'h option \<Rightarrow> ('f, 'h) binop_result" where
  "computeBinaryPairing F H v lhs rhs hlhs hrhs =
     (if Card v = CardOneToMany then vectorElemBinop F H (opType v) rhs lhs hrhs hlhs
      else vectorElemBinop F H (opType v) lhs rhs hlhs hrhs)"

text \<open>
  Modelled from the spec: \<open>newManyToManyMatchError\<close> is not among the sources; the error
  ManyToManyMatch carries the side and the duplicate and original label sets.
\<close>

definition newManyToManyMatchErrorOnLowCardSide ::
  "('f, 'h) vectorOperator \<Rightarrow> u64 \<Rightarrow> u64 \<Rightarrow> error" where
  "newManyToManyMatchErrorOnLowCardSide v originalSampleId duplicateSampleId =
     (let side = (if Card v = CardOneToMany then lhBinOpSide else rhBinOpSide);
          labels = (if Card v = CardOneToMany then lhsSampleIDs v else rhsSampleIDs v)
      in case index labels (unat duplicateSampleId) of
           Inl e \<Rightarrow> e
         | Inr dup \<Rightarrow>
            (case index labels (unat originalSampleId) of
               Inl e \<Rightarrow> e
             | Inr orig \<Rightarrow> ManyToManyMatch side dup orig))"

definition lc_sample ::
  "i64 \<Rightarrow> ('f, 'h) StepVector \<Rightarrow> nat \<Rightarrow> u64 \<Rightarrow> ('f, 'h) vectorOperator \<Rightarrow>
   error + ('f, 'h) vectorOperator" where
  "lc_sample ts lcs i sampleID v =
     (case index (lcJoinBuckets v) (unat sampleID) of
        Inl e \<Rightarrow> Inl e
      | Inr jp \<Rightarrow>
         if ats (buckets v jp) = ts
         then Inl (newManyToManyMatchErrorOnLowCardSide v (sid (buckets v jp)) sampleID)
         else
           (case index (Samples lcs) i of
              Inl e \<Rightarrow> Inl e
            | Inr x \<Rightarrow> Inr (setBucket v jp (\<lambda>b. b\<lparr>sid := sampleID, val := x, ats := ts\<rparr>))))"

definition lc_histogram ::
  "i64 \<Rightarrow> ('f, 'h) StepVector \<Rightarrow> nat \<Rightarrow> u64 \<Rightarrow> ('f, 'h) vectorOperator \<Rightarrow>
   error + ('f, 'h) vectorOperator" where
  "lc_histogram ts lcs i hID v =
     (case index (lcJoinBuckets v) (unat hID) of
        Inl e \<Rightarrow> Inl e
      | Inr jp \<Rightarrow>
         if ats (buckets v jp) = ts
         then Inl (newManyToManyMatchErrorOnLowCardSide v (sid (buckets v jp)) hID)
         else
           (case index (Histograms lcs) i of
              Inl e \<Rightarrow> Inl e
            | Inr h \<Rightarrow> Inr (setBucket v jp (\<lambda>b. b\<lparr>hid := hID, hval := h, ats := ts\<rparr>))))"

text \<open>The two loops that populate the low-cardinality buckets.\<close>

definition populate ::
  "i64 \<Rightarrow> ('f, 'h) StepVector \<Rightarrow> ('f, 'h) vectorOperator \<Rightarrow> error + ('f, 'h) vectorOperator" where
  "populate ts lcs v =
     (case for_range (lc_sample ts lcs) 0 (SampleIDs lcs) v of
        Inl e \<Rightarrow> Inl e
      | Inr v1 \<Rightarrow> for_range (lc_histogram ts lcs) 0 (HistogramIDs lcs) v1)"

definition hc_sample ::
  "'f float64_ops \<Rightarrow> ('f, 'h) histogram_ops \<Rightarrow> i64 \<Rightarrow> ('f, 'h) StepVector \<Rightarrow> nat \<Rightarrow> u64 \<Rightarrow>
   ('f, 'h) exec_state \<Rightarrow> error + ('f, 'h) exec_state" where
  "hc_sample F H ts hcs i sampleID s =
     (case s of (v, step, ws) \<Rightarrow>
        (case index (hcJoinBuckets v) (unat sampleID) of
           Inl e \<Rightarrow> Inl e
         | Inr jp \<Rightarrow>
            if ats (buckets v jp) \<noteq> ts then Inr (v, step, ws)
            else if bts (buckets v jp) = ts \<and> Card v = CardOneToOne then Inl ImplicitManyToOne
            else
              (case index (Samples hcs) i of
                 Inl e \<Rightarrow> Inl e
               | Inr x \<Rightarrow>
                  (case computeBinaryPairing F H v x (val (buckets v jp)) None None of
                     Inl e \<Rightarrow> Inl e
                   | Inr (f, _, keep, err) \<Rightarrow>
                      let v' = setBucket v jp (\<lambda>b. b\<lparr>bts := ts\<rparr>);
                          ws' = AddToContext err ws;
                          out = outputSeriesID v (sampleID + 1) (sid (buckets v jp) + 1)
                      in if returnBool v
                         then Inr (v', AppendSample step out (if keep then f_one F else f_zero F), ws')
                         else if \<not> keep then Inr (v', step, ws')
                         else Inr (v', AppendSample step out f, ws')))))"

definition hc_histogram ::
  "'f float64_ops \<Rightarrow> ('f, 'h) histogram_ops \<Rightarrow> i64 \<Rightarrow> ('f, 'h) StepVector \<Rightarrow> nat \<Rightarrow> u64 \<Rightarrow>
   ('f, 'h) exec_state \<Rightarrow> error + ('f, 'h) exec_state" where
  "hc_histogram F H ts hcs i hID s =
     (case s of (v, step, ws) \<Rightarrow>
        (case index (hcJoinBuckets v) (unat hID) of
           Inl e \<Rightarrow> Inl e
         | Inr jp \<Rightarrow>
            if ats (buckets v jp) \<noteq> ts then Inr (v, step, ws)
            else if bts (buckets v jp) = ts \<and> Card v = CardOneToOne then Inl ImplicitManyToOne
            else
              (case index (Histograms hcs) i of
                 Inl e \<Rightarrow> Inl e
               | Inr hh \<Rightarrow>
                  (case computeBinaryPairing F H v (f_zero F) (f_zero F) hh (hval (buckets v jp)) of
                     Inl e \<Rightarrow> Inl e
                   | Inr (_, h, _, err) \<Rightarrow>
                      Inr (setBucket v jp (\<lambda>b. b\<lparr>bts := ts\<rparr>),
                           AppendHistogram step
                             (outputSeriesID v (hID + 1) (sid (buckets v jp) + 1)) h,
                           AddToContext err ws)))))"

text \<open>The partition of the two sides by the matching cardinality.\<close>

definition sides ::
  "('f, 'h) vectorOperator \<Rightarrow> ('f, 'h) StepVector \<Rightarrow> ('f, 'h) StepVector \<Rightarrow>
   (('f, 'h) StepVector \<times> ('f, 'h) StepVector) option" where
  "sides v lhs rhs =
     (case Card v of
        CardManyToOne \<Rightarrow> Some (lhs, rhs)
      | CardOneToOne \<Rightarrow> Some (lhs, rhs)
      | CardOneToMany \<Rightarrow> Some (rhs, lhs)
      | CardManyToMany \<Rightarrow> None)"

definition execBinaryArithmetic ::
  "'f float64_ops \<Rightarrow> ('f, 'h) histogram_ops \<Rightarrow> ('f, 'h) vectorOperator \<Rightarrow>
   ('f, 'h) StepVector \<Rightarrow> ('f, 'h) StepVector \<Rightarrow> annotation list \<Rightarrow> error + ('f, 'h) exec_state" where
  "execBinaryArithmetic F H v lhs rhs ws =
     (let ts = T lhs; step = GetStepVector ts in
      case sides v lhs rhs of
        None \<Rightarrow> Inl UnexpectedCardinality
      | Some (hcs, lcs) \<Rightarrow>
         if length (Samples hcs) = 0 then Inr (v, step, ws)
         else
           (case populate ts lcs v of
              Inl e \<Rightarrow> Inl e
            | Inr v2 \<Rightarrow>
               (case for_range (hc_sample F H ts hcs) 0 (SampleIDs hcs) (v2, step, ws) of
                  Inl e \<Rightarrow> Inl e
                | Inr s \<Rightarrow> for_range (hc_histogram F H ts hcs) 0 (HistogramIDs hcs) s)))"

definition execBinaryOperation ::
  "'f float64_ops \<Rightarrow> ('f, 'h) histogram_ops \<Rightarrow> ('f, 'h) vectorOperator \<Rightarrow>
   ('f, 'h) StepVector \<Rightarrow> ('f, 'h) StepVector \<Rightarrow> annotation list \<Rightarrow> error + ('f, 'h) exec_state" where
  "execBinaryOperation F H v lhs rhs ws =
     (case opType v of
        LAND \<Rightarrow> execBinaryAnd v lhs rhs ws
      | LOR \<Rightarrow> execBinaryOr v lhs rhs ws
      | LUNLESS \<Rightarrow> execBinaryUnless v lhs rhs ws
      | _ \<Rightarrow> execBinaryArithmetic F H v lhs rhs ws)"

subsection \<open>\<open>Next\<close> and \<open>Series\<close>\<close>

text \<open>
  The loop of \<open>Next\<close> over the \<open>lhs\<close> batch, \<open>i\<close> the index of the head of the list: the
  state is the operator, the warnings and the output batch.
\<close>

fun next_loop ::
  "'f float64_ops \<Rightarrow> ('f, 'h) histogram_ops \<Rightarrow> ('f, 'h) StepVector list \<Rightarrow> nat \<Rightarrow>
   ('f, 'h) StepVector list \<Rightarrow>
   ('f, 'h) vectorOperator \<times> ('f, 'h) StepVector list \<times> annotation list \<Rightarrow>
   error + ('f, 'h) vectorOperator \<times> ('f, 'h) StepVector list \<times> annotation list" where
  "next_loop F H rhs i [] s = Inr s"
| "next_loop F H rhs i (vector # lhs) (v, batch, ws) =
     (if i < length rhs then
        (case execBinaryOperation F H v vector (rhs ! i) ws of
           Inl err \<Rightarrow> Inl err
         | Inr (v', step, ws') \<Rightarrow> next_loop F H rhs (Suc i) lhs (v', batch @ [step], ws'))
      else next_loop F H rhs (Suc i) lhs (v, batch, ws))"

text \<open>
  \<open>initOnce\<close>: the body of \<open>init\<close> runs on the first call only. What it yields then, an
  error of a child's \<open>Series\<close> or the operator with its join tables, is an input
  (\<open>initRes\<close>), as are the results of the children's \<open>Next\<close>.
\<close>

definition initOnce ::
  "(error + ('f, 'h) vectorOperator) \<Rightarrow> ('f, 'h) vectorOperator \<Rightarrow> error + ('f, 'h) vectorOperator" where
  "initOnce initRes v =
     (if once v then Inr v
      else (case initRes of Inl err \<Rightarrow> Inl err | Inr v' \<Rightarrow> Inr (v'\<lparr>once := True\<rparr>)))"

definition vectorOperator_Series ::
  "Context \<Rightarrow> (error + ('f, 'h) vectorOperator) \<Rightarrow> ('f, 'h) vectorOperator \<Rightarrow>
   error + Labels list \<times> ('f, 'h) vectorOperator" where
  "vectorOperator_Series ctx initRes v =
     (case initOnce initRes v of
        Inl err \<Rightarrow> Inl err
      | Inr v' \<Rightarrow> Inr (series v', v'))"

definition vectorOperator_Next ::
  "'f float64_ops \<Rightarrow> ('f, 'h) histogram_ops \<Rightarrow> Context \<Rightarrow> (error + ('f, 'h) vectorOperator) \<Rightarrow>
   (error + ('f, 'h) StepVector list) \<Rightarrow> (error + ('f, 'h) StepVector list) \<Rightarrow>
   ('f, 'h) vectorOperator \<Rightarrow> annotation list \<Rightarrow>
   error + ('f, 'h) vectorOperator \<times> ('f, 'h) StepVector list \<times> annotation list" where
  "vectorOperator_Next F H ctx initRes lres rres v ws =
     (case ctx of
        Some e \<Rightarrow> Inl (CtxErr e)
      | None \<Rightarrow>
         (case initOnce initRes v of
            Inl err \<Rightarrow> Inl err
          | Inr v' \<Rightarrow>
             (case rres of
                Inl rerr \<Rightarrow> Inl rerr
              | Inr rhs \<Rightarrow>
                 (case lres of
                    Inl lerr \<Rightarrow> Inl lerr
                  | Inr lhs \<Rightarrow>
                     if length lhs = 0 \<or> length rhs = 0 then Inr (v', [], ws)
                     else next_loop F H rhs 0 lhs (v', [], ws)))))"

section \<open>The vector-scalar binary operator\<close>

datatype ScalarSide = ScalarSideBoth | ScalarSideLeft | ScalarSideRight

text \<open>
  The vector-scalar operator of package \<open>binary\<close>. \<open>floatOp\<close>, \<open>histOp\<close> and
  \<open>getOperands\<close> are function values held by the operator; \<open>histOp\<close> is given without
  the context it reports warnings to.
\<close>

record ('f, 'h) binary_scalarOperator =
  so_series :: "Labels list"
  getOperands :: "('f, 'h) StepVector \<Rightarrow> nat \<Rightarrow> 'f \<Rightarrow> 'f \<times> 'f"
  operandValIdx :: nat
  floatOp :: "'f \<times> 'f \<Rightarrow> nat \<Rightarrow> 'f \<times> bool"
  histOp :: "'h option \<Rightarrow> 'f \<Rightarrow> 'h option"
  so_returnBool :: bool
  bothScalars :: bool

text \<open>Both are called with an index inside \<open>v.Samples\<close> only.\<close>

definition getOperandsScalarLeft :: "('f, 'h) StepVector \<Rightarrow> nat \<Rightarrow> 'f \<Rightarrow> 'f \<times> 'f" where
  "getOperandsScalarLeft v i scalar = (scalar, Samples v ! i)"

definition getOperandsScalarRight :: "('f, 'h) StepVector \<Rightarrow> nat \<Rightarrow> 'f \<Rightarrow> 'f \<times> 'f" where
  "getOperandsScalarRight v i scalar = (Samples v ! i, scalar)"

definition scalar_sample ::
  "'f float64_ops \<Rightarrow> ('f, 'h) binary_scalarOperator \<Rightarrow> ('f, 'h) StepVector \<Rightarrow> 'f \<Rightarrow> nat \<Rightarrow> 'f \<Rightarrow>
   ('f, 'h) StepVector \<Rightarrow> error + ('f, 'h) StepVector" where
  "scalar_sample F o' vector scalarVal i x step =
     (let operands = getOperands o' vector i scalarVal;
          (val0, keep) = floatOp o' operands (operandValIdx o');
          val1 = (if so_returnBool o' \<and> \<not> bothScalars o'
                  then (if keep then f_one F else f_zero F) else val0)
      in if \<not> so_returnBool o' \<and> \<not> keep then Inr step
         else (case index (SampleIDs vector) i of
                 Inl e \<Rightarrow> Inl e
               | Inr n \<Rightarrow> Inr (AppendSample step n val1)))"

definition scalar_histogram ::
  "('f, 'h) binary_scalarOperator \<Rightarrow> ('f, 'h) StepVector \<Rightarrow> 'f \<Rightarrow> nat \<Rightarrow> u64 \<Rightarrow>
   ('f, 'h) StepVector \<Rightarrow> error + ('f, 'h) StepVector" where
  "scalar_histogram o' vector scalarVal i hID step =
     (case index (Histograms vector) i of
        Inl e \<Rightarrow> Inl e
      | Inr h \<Rightarrow>
         (case histOp o' h scalarVal of
            None \<Rightarrow> Inr step
          | Some val0 \<Rightarrow> Inr (AppendHistogram step hID (Some val0))))"

definition scalar_step ::
  "'f float64_ops \<Rightarrow> ('f, 'h) binary_scalarOperator \<Rightarrow> ('f, 'h) StepVector list \<Rightarrow> nat \<Rightarrow>
   ('f, 'h) StepVector \<Rightarrow> ('f, 'h) StepVector list \<Rightarrow> error + ('f, 'h) StepVector list" where
  "scalar_step F o' scalarIn n vector out =
     (let step = GetStepVector (T vector);
          scalarVal = (if length scalarIn > n \<and> length (Samples (scalarIn ! n)) > 0
                       then Samples (scalarIn ! n) ! 0 else f_nan F)
      in case for_range (scalar_sample F o' vector scalarVal) 0 (Samples vector) step of
           Inl e \<Rightarrow> Inl e
         | Inr step1 \<Rightarrow>
            (case for_range (scalar_histogram o' vector scalarVal) 0 (HistogramIDs vector) step1 of
               Inl e \<Rightarrow> Inl e
             | Inr step2 \<Rightarrow> Inr (out @ [step2])))"

text \<open>
  \<open>Next\<close>: the vector child's result is an error, nil or a batch; \<open>loadRes\<close> is what the
  one-shot \<open>loadSeries\<close> yields on this call, \<open>scalarNext\<close> the scalar child's result.
\<close>

definition binary_scalarOperator_Next ::
  "'f float64_ops \<Rightarrow> ('f, 'h) binary_scalarOperator \<Rightarrow> Context \<Rightarrow>
   (error + ('f, 'h) StepVector list option) \<Rightarrow> error option \<Rightarrow>
   (error + ('f, 'h) StepVector list) \<Rightarrow> error + ('f, 'h) StepVector list" where
  "binary_scalarOperator_Next F o' ctx childNext loadRes scalarNext =
     (case ctx of
        Some e \<Rightarrow> Inl (CtxErr e)
      | None \<Rightarrow>
         (case childNext of
            Inl err \<Rightarrow> Inl err
          | Inr None \<Rightarrow> Inr []
          | Inr (Some inp) \<Rightarrow>
             (case loadRes of
                Some err \<Rightarrow> Inl err
              | None \<Rightarrow>
                 (case scalarNext of
                    Inl err \<Rightarrow> Inl err
                  | Inr scalarIn \<Rightarrow> for_range (scalar_step F o' scalarIn) 0 inp []))))"

definition binary_scalarOperator_Series ::
  "('f, 'h) binary_scalarOperator \<Rightarrow> Context \<Rightarrow> error option \<Rightarrow> error + Labels list" where
  "binary_scalarOperator_Series o' ctx loadRes =
     (case loadRes of Some err \<Rightarrow> Inl err | None \<Rightarrow> Inr (so_series o'))"

section \<open>Examples of the abstract parameters\<close>

text \<open>
  Exact rational arithmetic as an instance of the float operations, used to evaluate the
  operators on concrete inputs. It has no NaN of its own: \<open>-1\<close> stands in for it.
\<close>

definition rat_ops :: "rat float64_ops" where
  "rat_ops =
     \<lparr>f_zero = 0, f_one = 1, f_half = 1 / 2, f_nan = -1,
      f_add = (+), f_sub = (-), f_mul = (*), f_div = (/),
      f_pow = (\<lambda>a b. a ^ nat \<lfloor>b\<rfloor>), f_mod = (\<lambda>a b. a - b * of_int \<lfloor>a / b\<rfloor>),
      f_atan2 = (\<lambda>a b. 0), f_floor = (\<lambda>a. of_int \<lfloor>a\<rfloor>),
      f_eq = (=), f_lt = (<), f_gt = (>), f_le = (\<le>), f_ge = (\<ge>)\<rparr>"

text \<open>
  A small instance of the histogram operations: a histogram is the list of its bucket
  counts, bucket \<open>i\<close> at position \<open>i\<close>. \<open>Compact\<close> cuts the empty buckets at the end,
  \<open>Equals\<close> compares the bucket lists as they are, so an empty bucket counts, as in
  the library, where \<open>Equals\<close> rejects "new buckets (even empty)".
\<close>

fun add_buckets :: "rat list \<Rightarrow> rat list \<Rightarrow> rat list" where
  "add_buckets [] ys = ys"
| "add_buckets xs [] = xs"
| "add_buckets (x # xs) (y # ys) = (x + y) # add_buckets xs ys"

definition trim_buckets :: "rat list \<Rightarrow> rat list" where
  "trim_buckets xs = rev (dropWhile (\<lambda>c. c = 0) (rev xs))"

definition bucket_ops :: "(rat, rat list) histogram_ops" where
  "bucket_ops =
     \<lparr>h_Copy = (\<lambda>h. h),
      h_Mul = (\<lambda>h f. map (\<lambda>c. c * f) h),
      h_Div = (\<lambda>h f. map (\<lambda>c. c / f) h),
      h_Add = (\<lambda>a b. Inr (add_buckets a b)),
      h_Sub = (\<lambda>a b. Inr (add_buckets a (map uminus b))),
      h_Equals = (=),
      h_Compact = (\<lambda>n h. trim_buckets h)\<rparr>"

text \<open>
  The state the operator is in once \<open>init\<close> has run on the child's series: the pairs are
  the ones \<open>init\<close> records and there is one mask per series.
\<close>

definition initialised :: "(Labels \<Rightarrow> u64) \<Rightarrow> Labels list \<Rightarrow> duplicateLabelCheckOperator \<Rightarrow> bool" where
  "initialised hash srs d =
     (once_done d \<and> p d = init_pairs hash srs 0 Map.empty [] \<and> length (c d) = length srs)"

text \<open>
  Both series of a pair have a sample in a step (sample IDs are read as indices).
\<close>

definition both_alive :: "nat \<Rightarrow> nat \<Rightarrow> ('f, 'h) StepVector \<Rightarrow> bool" where
  "both_alive a b sv = (a \<in> unat ` set (SampleIDs sv) \<and> b \<in> unat ` set (SampleIDs sv))"

text \<open>
  Two series, an operator initialised on them with a hash function under which they
  collide, and steps in which the given series have a sample.
\<close>

definition two_series :: "Labels list" where
  "two_series = [[(''a'', ''1'')], [(''a'', ''2'')]]"

definition alive :: "u64 list \<Rightarrow> (rat, unit) StepVector" where
  "alive ids = \<lparr>T = 0, SampleIDs = ids, Samples = map (\<lambda>_. 1) ids, HistogramIDs = [], Histograms = []\<rparr>"

definition checked_op :: duplicateLabelCheckOperator where
  "checked_op = \<lparr>once_done = True, p = [(1, 0)], c = [0, 0]\<rparr>"

text \<open>
  The output step of a state holds no histogram.
\<close>

definition no_histograms :: "('f, 'h) exec_state \<Rightarrow> bool" where
  "no_histograms s = (case s of (v, step, ws) \<Rightarrow> HistogramIDs step = [] \<and> Histograms step = [])"

text \<open>The set operators read the timestamp of \<open>lhs\<close> and the samples of both sides only.\<close>

definition with_histograms ::
  "('f, 'h) StepVector \<Rightarrow> u64 list \<Rightarrow> 'h option list \<Rightarrow> ('f, 'h) StepVector" where
  "with_histograms sv ids hs = sv\<lparr>HistogramIDs := ids, Histograms := hs\<rparr>"

text \<open>
  An operator over two series on each side, all with the same signature, so that the four
  series share the join bucket at address 0; every pairing has its own output series.
\<close>

definition bucket0 :: "(rat, rat list) joinBucket" where
  "bucket0 = \<lparr>ats = -1, bts = -1, sid = 0, hid = 0, val = 0, hval = None\<rparr>"

definition example_op :: "ItemType \<Rightarrow> VectorMatchCardinality \<Rightarrow> (rat, rat list) vectorOperator" where
  "example_op op cd =
     \<lparr>once = True,
      lhsSampleIDs = [[(''l'', ''0'')], [(''l'', ''1'')]],
      rhsSampleIDs = [[(''r'', ''0'')], [(''r'', ''1'')]],
      series = [],
      lcJoinBuckets = [0, 0], hcJoinBuckets = [0, 0],
      buckets = (\<lambda>_. bucket0),
      outputMap = (\<lambda>k. Some (k + 100)),
      Card = cd, opType = op, returnBool = False\<rparr>"

definition mk_step :: "i64 \<Rightarrow> (u64 \<times> rat) list \<Rightarrow> (u64 \<times> rat list) list \<Rightarrow> (rat, rat list) StepVector" where
  "mk_step ts fs hs =
     \<lparr>T = ts, SampleIDs = map fst fs, Samples = map snd fs,
      HistogramIDs = map fst hs, Histograms = map (Some \<circ> snd) hs\<rparr>"

text \<open>
  The pairing of steps by batch index as the specification words it: the two batches are
  zipped, so there are as many pairs as the shorter batch has steps, and the pairs are
  evaluated in order.
\<close>

fun run_pairs ::
  "'f float64_ops \<Rightarrow> ('f, 'h) histogram_ops \<Rightarrow> (('f, 'h) StepVector \<times> ('f, 'h) StepVector) list \<Rightarrow>
   ('f, 'h) vectorOperator \<times> ('f, 'h) StepVector list \<times> annotation list \<Rightarrow>
   error + ('f, 'h) vectorOperator \<times> ('f, 'h) StepVector list \<times> annotation list" where
  "run_pairs F H [] s = Inr s"
| "run_pairs F H ((l, r) # ps) (v, batch, ws) =
     (case execBinaryOperation F H v l r ws of
        Inl err \<Rightarrow> Inl err
      | Inr (v', step, ws') \<Rightarrow> run_pairs F H ps (v', batch @ [step], ws'))"

text \<open>
  Two batches for the example operator: three steps on the left, two on the right.
\<close>

definition lhs3 :: "(rat, rat list) StepVector list" where
  "lhs3 = [mk_step 5 [(0, 10)] [], mk_step 6 [(0, 11)] [], mk_step 7 [(0, 12)] []]"

definition rhs2 :: "(rat, rat list) StepVector list" where
  "rhs2 = [mk_step 5 [(1, 3)] [], mk_step 6 [] []]"

section \<open>Theorems\<close>

lemmas exec_defs = execBinaryOperation_def execBinaryAnd_def execBinaryOr_def execBinaryUnless_def
  and_mark_def and_emit_def or_left_def or_right_def unless_mark_def unless_emit_def
  index_def setBucket_def GetStepVector_def AppendSample_def AppendHistogram_def
  outputSeriesID_def cantorPairing_def


text \<open>
  C6: for every input step, the absent operator emits the single sample (ID 0, value 1)
  if and only if the step has no samples and no histograms; otherwise the output step for
  that timestamp is empty. A non-cancelled call whose child returns a batch yields one
  output step per input step.
\<close>

theorem absent_emits_iff_step_empty:
  "absentOperator_Next F None (Inr vectors) = Inr (map (absentOperator_step F) vectors)
   \<and> T (absentOperator_step F v) = T v
   \<and> HistogramIDs (absentOperator_step F v) = [] \<and> Histograms (absentOperator_step F v) = []
   \<and> ((SampleIDs (absentOperator_step F v) = [0] \<and> Samples (absentOperator_step F v) = [f_one F])
        = (Samples v = [] \<and> Histograms v = []))
   \<and> ((SampleIDs (absentOperator_step F v) = [] \<and> Samples (absentOperator_step F v) = [])
        = (\<not> (Samples v = [] \<and> Histograms v = [])))"
  by (simp add: absentOperator_Next_def absentOperator_step_def AppendSample_def GetStepVector_def)

text \<open>
  C5: the scalar operator's Series is empty, whatever the context. A non-cancelled Next
  whose child returns a batch emits one output step per input step, with the same
  timestamp, holding the single sample with ID 0: the input step's sample when the input
  step has exactly one sample, NaN otherwise. The output step never holds a histogram.
\<close>

theorem scalar_one_sample_per_step:
  "scalarOperator_Series ctx = Inr []
   \<and> scalarOperator_Next F None (Inr inp) = Inr (map (scalarOperator_step F) inp)
   \<and> length (map (scalarOperator_step F :: ('f, 'h) StepVector \<Rightarrow> ('f, 'h) StepVector) inp) = length inp
   \<and> T (scalarOperator_step F v) = T v
   \<and> SampleIDs (scalarOperator_step F v) = [0]
   \<and> Samples (scalarOperator_step F v) = [if length (Samples v) = 1 then hd (Samples v) else f_nan F]
   \<and> HistogramIDs (scalarOperator_step F v) = [] \<and> Histograms (scalarOperator_step F v) = []"
  by (cases "Samples v")
     (simp_all add: scalarOperator_Series_def scalarOperator_Next_def scalarOperator_step_def
        AppendSample_def GetStepVector_def)

text \<open>
  C7 (as amended): for non-nil histogram operands, \<open>vectorElemBinop\<close> on \<open>==\<close> returns
  keep = \<open>hlhs.Equals(hrhs)\<close> and on \<open>!=\<close> its negation, computed on the operands as they
  are given, without compacting them; the returned histogram is the left operand. When
  both operands are already compact, this is equality after compaction.
\<close>

theorem vectorElemBinop_hist_eq:
  "vectorElemBinop F H EQLC lhs rhs (Some hl) (Some hr) = Inr (f_zero F, Some hl, h_Equals H hl hr, None)
   \<and> vectorElemBinop F H NEQ lhs rhs (Some hl) (Some hr) = Inr (f_zero F, Some hl, \<not> h_Equals H hl hr, None)
   \<and> (h_Compact H 0 hl = hl \<and> h_Compact H 0 hr = hr \<longrightarrow>
        h_Equals H hl hr = h_Equals H (h_Compact H 0 hl) (h_Compact H 0 hr))"
  by (simp add: vectorElemBinop_def)

theorem vectorElemBinop_hist_eq_witness:
  "h_Compact bucket_ops 0 [1, 2] = [1, 2] \<and> h_Compact bucket_ops 0 [1, 3] = [1, 3]
   \<and> vectorElemBinop rat_ops bucket_ops EQLC 0 0 (Some [1, 2]) (Some [1, 3])
       = Inr (0, Some [1, 2], False, None)
   \<and> vectorElemBinop rat_ops bucket_ops NEQ 0 0 (Some [1, 2]) (Some [1, 3])
       = Inr (0, Some [1, 2], True, None)
   \<and> h_Equals bucket_ops (h_Compact bucket_ops 0 [1, 2]) (h_Compact bucket_ops 0 [1, 3]) = False"
  using vectorElemBinop_hist_eq [of rat_ops bucket_ops 0 0 "[1, 2]" "[1, 3]"]
  by (simp add: bucket_ops_def rat_ops_def trim_buckets_def)

text \<open>
  The claim as stated fails for operands that are not compact: the two histograms below
  are equal after compaction, and \<open>==\<close> does not keep the pair.
\<close>

theorem vectorElemBinop_hist_eq_counterexample:
  "h_Equals bucket_ops (h_Compact bucket_ops 0 [1, 0]) (h_Compact bucket_ops 0 [1]) = True
   \<and> vectorElemBinop rat_ops bucket_ops EQLC 0 0 (Some [1, 0]) (Some [1])
       = Inr (0, Some [1, 0], False, None)
   \<and> vectorElemBinop rat_ops bucket_ops NEQ 0 0 (Some [1, 0]) (Some [1])
       = Inr (0, Some [1, 0], True, None)"
  by (simp add: vectorElemBinop_def bucket_ops_def rat_ops_def trim_buckets_def)

text \<open>
  C8: with no histogram and no argument, so that \<open>toNearest\<close> is the default 1, \<open>round\<close>
  returns \<open>floor (v + 0.5)\<close> and keeps the sample; with a histogram the sample is
  dropped. The float operations are the language's; the three facts of IEEE 754
  arithmetic used are that 1 / 1 is 1 and that multiplying and dividing by 1 are exact.
\<close>

theorem round_default_is_floor_plus_half:
  assumes "f_div F (f_one F) (f_one F) = f_one F"
    and "\<And>x. f_mul F x (f_one F) = x"
    and "\<And>x. f_div F x (f_one F) = x"
  shows "instantVectorFuncs_round F v (None :: 'h option) [] = (f_floor F (f_add F v (f_half F)), True)
         \<and> instantVectorFuncs_round F v (Some (h :: 'h)) vargs = (f_zero F, False)"
  using assms by (simp add: instantVectorFuncs_round_def)

theorem round_default_is_floor_plus_half_witness:
  "f_div rat_ops (f_one rat_ops) (f_one rat_ops) = f_one rat_ops
   \<and> (\<forall>x. f_mul rat_ops x (f_one rat_ops) = x)
   \<and> (\<forall>x. f_div rat_ops x (f_one rat_ops) = x)
   \<and> instantVectorFuncs_round rat_ops (5 / 2) (None :: unit option) [] = (3, True)
   \<and> instantVectorFuncs_round rat_ops (-5 / 2) (None :: unit option) [] = (-2, True)
   \<and> instantVectorFuncs_round rat_ops (5 / 2) (Some ()) [] = (0, False)"
proof -
  have u: "f_div rat_ops (f_one rat_ops) (f_one rat_ops) = f_one rat_ops"
    by (simp add: rat_ops_def)
  have m: "\<And>x. f_mul rat_ops x (f_one rat_ops) = x"
    by (simp add: rat_ops_def)
  have d: "\<And>x. f_div rat_ops x (f_one rat_ops) = x"
    by (simp add: rat_ops_def)
  have fl: "f_floor rat_ops (f_add rat_ops (5 / 2) (f_half rat_ops)) = 3"
    "f_floor rat_ops (f_add rat_ops (-5 / 2) (f_half rat_ops)) = -2"
    "f_zero rat_ops = 0"
    by (simp_all add: rat_ops_def)
  show ?thesis
    using round_default_is_floor_plus_half [OF u m d, of "5 / 2" "()" "[]"]
      round_default_is_floor_plus_half [OF u m d, of "-5 / 2" "()" "[]"] u m d fl
    by simp
qed

text \<open>
  Bit \<open>n\<close> of the mask \<open>2 << i\<close> is set exactly for \<open>n = i + 1\<close>, as long as that is below 64:
  from batch position 63 on the shift leaves the 64-bit word empty.
\<close>

lemma bit_two: "bit (2 :: int) k \<longleftrightarrow> k = 1"
proof (cases k)
  case 0
  then show ?thesis by simp
next
  case (Suc m)
  then show ?thesis by (simp add: bit_Suc bit_1_iff)
qed

lemma bit_mask_position: "bit (push_bit i (2 :: u64)) n \<longleftrightarrow> n = Suc i \<and> n < 64"
  by (auto simp add: bit_push_bit_iff bit_two)

text \<open>
  What the marking loops do to the masks, bit by bit.
\<close>

lemma mark_ids_bits:
  "mark_ids i sids cs = Inr cs' \<Longrightarrow>
   length cs' = length cs \<and>
   (\<forall>k<length cs. \<forall>n. bit (cs' ! k) n \<longleftrightarrow>
      bit (cs ! k) n \<or> (k \<in> unat ` set sids \<and> n = Suc i \<and> n < 64))"
proof (induction sids arbitrary: cs)
  case Nil
  then show ?case by simp
next
  case (Cons sd sids)
  let ?c = "cs[unat sd := (cs ! unat sd) OR push_bit i 2]"
  from Cons.prems have r: "unat sd < length cs"
    and m: "mark_ids i sids ?c = Inr cs'"
    by (auto split: if_splits)
  note IH = Cons.IH [OF m]
  show ?case
  proof (intro conjI allI impI)
    show "length cs' = length cs" using IH by simp
  next
    fix k n assume k: "k < length cs"
    have 1: "bit (cs' ! k) n \<longleftrightarrow> bit (?c ! k) n \<or> (k \<in> unat ` set sids \<and> n = Suc i \<and> n < 64)"
      using IH k by simp
    have 2: "bit (?c ! k) n \<longleftrightarrow> bit (cs ! k) n \<or> (k = unat sd \<and> n = Suc i \<and> n < 64)"
    proof (cases "k = unat sd")
      case True
      then show ?thesis using r by (simp add: bit_or_iff bit_mask_position)
    next
      case False
      then show ?thesis by simp
    qed
    show "bit (cs' ! k) n \<longleftrightarrow>
      bit (cs ! k) n \<or> (k \<in> unat ` set (sd # sids) \<and> n = Suc i \<and> n < 64)"
      unfolding 1 2 by auto
  qed
qed

lemma mark_ids_total:
  "\<forall>sd\<in>set sids. unat sd < length cs \<Longrightarrow> \<exists>cs'. mark_ids i sids cs = Inr cs'"
  by (induction sids arbitrary: cs) auto

lemma mark_steps_bits:
  "mark_steps i svs cs = Inr cs' \<Longrightarrow>
   length cs' = length cs \<and>
   (\<forall>k<length cs. \<forall>n. bit (cs' ! k) n \<longleftrightarrow>
      bit (cs ! k) n \<or> (\<exists>j<length svs. k \<in> unat ` set (SampleIDs (svs ! j)) \<and> n = Suc (i + j) \<and> n < 64))"
proof (induction svs arbitrary: cs i)
  case Nil
  then show ?case by simp
next
  case (Cons sv svs)
  from Cons.prems obtain c1 where a: "mark_ids i (SampleIDs sv) cs = Inr c1"
    and b: "mark_steps (Suc i) svs c1 = Inr cs'"
    by (auto split: sum.splits)
  note A = mark_ids_bits [OF a]
  note B = Cons.IH [OF b]
  show ?case
  proof (intro conjI allI impI)
    show "length cs' = length cs" using A B by simp
  next
    fix k n assume k: "k < length cs"
    have "bit (cs' ! k) n \<longleftrightarrow> bit (c1 ! k) n \<or>
       (\<exists>j<length svs. k \<in> unat ` set (SampleIDs (svs ! j)) \<and> n = Suc (Suc i + j) \<and> n < 64)"
      using B k A by simp
    also have "bit (c1 ! k) n \<longleftrightarrow> bit (cs ! k) n \<or> (k \<in> unat ` set (SampleIDs sv) \<and> n = Suc i \<and> n < 64)"
      using A k by simp
    finally show "bit (cs' ! k) n \<longleftrightarrow>
      bit (cs ! k) n \<or> (\<exists>j<length (sv # svs). k \<in> unat ` set (SampleIDs ((sv # svs) ! j)) \<and> n = Suc (i + j) \<and> n < 64)"
      by (simp add: Ex_less_Suc2 disj_assoc)
  qed
qed

lemma mark_steps_total:
  "\<forall>sv\<in>set svs. \<forall>sd\<in>set (SampleIDs sv). unat sd < length cs \<Longrightarrow>
   \<exists>cs'. mark_steps i svs cs = Inr cs'"
proof (induction svs arbitrary: cs i)
  case Nil
  then show ?case by simp
next
  case (Cons sv svs)
  then obtain c1 where a: "mark_ids i (SampleIDs sv) cs = Inr c1"
    using mark_ids_total [of "SampleIDs sv" cs i] by auto
  then have "length c1 = length cs" using mark_ids_bits by blast
  with Cons a show ?case by auto
qed

lemma clear_pairs_zero:
  "\<forall>(a, b)\<in>set ps. a < length cs \<and> b < length cs \<Longrightarrow>
   \<exists>cs'. clear_pairs ps cs = Inr cs' \<and> length cs' = length cs \<and>
     (\<forall>(a, b)\<in>set ps. cs' ! a = 0 \<and> cs' ! b = 0) \<and>
     (\<forall>k<length cs. cs ! k = 0 \<longrightarrow> cs' ! k = 0)"
proof (induction ps arbitrary: cs)
  case Nil
  then show ?case by simp
next
  case (Cons ab ps)
  obtain a b where ab: "ab = (a, b)" by (cases ab)
  let ?c = "cs[a := 0, b := 0]"
  from Cons.prems ab have r: "a < length cs" "b < length cs"
    and rest: "\<forall>(a, b)\<in>set ps. a < length ?c \<and> b < length ?c"
    by auto
  from Cons.IH [OF rest] obtain cs' where
    h: "clear_pairs ps ?c = Inr cs'" "length cs' = length cs"
       "\<forall>(a, b)\<in>set ps. cs' ! a = 0 \<and> cs' ! b = 0"
       "\<forall>k<length cs. ?c ! k = 0 \<longrightarrow> cs' ! k = 0"
    by auto
  have z: "?c ! k = 0" if "k < length cs" "cs ! k = 0 \<or> k = a \<or> k = b" for k
    using that by (cases "k = b"; cases "k = a") auto
  have "cs' ! a = 0" "cs' ! b = 0"
    using h(4) r z by blast+
  moreover have "\<forall>k<length cs. cs ! k = 0 \<longrightarrow> cs' ! k = 0"
    using h(4) z by blast
  ultimately show ?case using h(1,2,3) r ab by simp
qed

lemma check_pairs_iff:
  "\<forall>(a, b)\<in>set ps. a < length cs \<and> b < length cs \<Longrightarrow>
   check_pairs ps cs =
     (if \<exists>(a, b)\<in>set ps. (cs ! a) AND (cs ! b) \<noteq> 0 then Some ErrDuplicateLabelSet else None)"
proof (induction ps)
  case Nil
  then show ?case by simp
next
  case (Cons ab ps)
  obtain a b where ab: "ab = (a, b)" by (cases ab)
  from Cons.prems ab have r: "a < length cs" "b < length cs"
    and rest: "\<forall>(a, b)\<in>set ps. a < length cs \<and> b < length cs"
    by auto
  show ?case
    using Cons.IH [OF rest] r ab by (simp add: word_greater_zero_iff)
qed

text \<open>
  Every pair that \<open>init\<close> records is a later series with the first earlier series of
  the same hash.
\<close>

lemma init_pairs_sound:
  "all = pre @ srs \<Longrightarrow> i = length pre \<Longrightarrow>
   \<forall>h j. m h = Some j \<longrightarrow> j < i \<and> hash (all ! j) = h \<Longrightarrow>
   \<forall>(a, b)\<in>set ps. b < a \<and> a < length all \<and> hash (all ! a) = hash (all ! b) \<Longrightarrow>
   \<forall>(a, b)\<in>set (init_pairs hash srs i m ps).
      b < a \<and> a < length all \<and> hash (all ! a) = hash (all ! b)"
proof (induction srs arbitrary: pre i m ps)
  case Nil
  then show ?case by simp
next
  case (Cons s srs)
  have all: "all = (pre @ [s]) @ srs" and i: "Suc i = length (pre @ [s])"
    using Cons.prems(1,2) by simp_all
  have s: "all ! i = s" using Cons.prems(1,2) by simp
  show ?case
  proof (cases "m (hash s)")
    case None
    have m': "\<forall>h j. (m(hash s \<mapsto> i)) h = Some j \<longrightarrow> j < Suc i \<and> hash (all ! j) = h"
      using Cons.prems(3) s by (auto simp add: less_Suc_eq)
    have step: "init_pairs hash (s # srs) i m ps = init_pairs hash srs (Suc i) (m(hash s \<mapsto> i)) ps"
      using None by simp
    show ?thesis
      unfolding step
      by (rule Cons.IH [of "pre @ [s]" "Suc i" "m(hash s \<mapsto> i)" ps, OF all i m' Cons.prems(4)])
  next
    case (Some j)
    then have j: "j < i" "hash (all ! j) = hash s" using Cons.prems(3) by auto
    have m': "\<forall>h j. m h = Some j \<longrightarrow> j < Suc i \<and> hash (all ! j) = h"
      using Cons.prems(3) by (auto simp add: less_Suc_eq)
    have ps': "\<forall>(a, b)\<in>set (ps @ [(i, j)]). b < a \<and> a < length all \<and> hash (all ! a) = hash (all ! b)"
      using Cons.prems(4) j s Cons.prems(1,2) by auto
    have step: "init_pairs hash (s # srs) i m ps = init_pairs hash srs (Suc i) m (ps @ [(i, j)])"
      using Some by simp
    show ?thesis
      unfolding step by (rule Cons.IH [OF all i m' ps'])
  qed
qed

lemma recorded_pairs_collide:
  "\<forall>(a, b)\<in>set (init_pairs hash srs 0 Map.empty []).
      b < a \<and> a < length srs \<and> hash (srs ! a) = hash (srs ! b)"
  using init_pairs_sound [of srs "[]" srs 0 Map.empty hash "[]"] by simp

lemma and_nonzero_iff: "(x :: u64) AND y \<noteq> 0 \<longleftrightarrow> (\<exists>n. bit x n \<and> bit y n)"
proof
  assume "x AND y \<noteq> 0"
  then obtain n where "bit (x AND y) n" by (auto simp add: bit_eq_iff)
  then show "\<exists>n. bit x n \<and> bit y n" by (auto simp add: bit_and_iff)
next
  assume "\<exists>n. bit x n \<and> bit y n"
  then obtain n where "bit (x AND y) n" by (auto simp add: bit_and_iff)
  then show "x AND y \<noteq> 0" by auto
qed

lemma masks_meet_iff:
  assumes c1: "mark_steps 0 inp c0 = Inr c1"
    and a: "a < length c0" "c0 ! a = 0" and b: "b < length c0" "c0 ! b = 0"
  shows "(c1 ! a) AND (c1 ! b) \<noteq> 0 \<longleftrightarrow>
     (\<exists>i<length inp. i < 63 \<and> a \<in> unat ` set (SampleIDs (inp ! i)) \<and> b \<in> unat ` set (SampleIDs (inp ! i)))"
proof -
  note B = mark_steps_bits [OF c1]
  have A: "bit (c1 ! a) n \<longleftrightarrow> (\<exists>j<length inp. a \<in> unat ` set (SampleIDs (inp ! j)) \<and> n = Suc j \<and> n < 64)" for n
    using B a by simp
  have Bb: "bit (c1 ! b) n \<longleftrightarrow> (\<exists>j<length inp. b \<in> unat ` set (SampleIDs (inp ! j)) \<and> n = Suc j \<and> n < 64)" for n
    using B b by simp
  show ?thesis
    unfolding and_nonzero_iff A Bb by (auto; fastforce)
qed

text \<open>
  The outcome of \<open>Next\<close> on an initialised operator for a batch whose sample IDs index the
  series table.
\<close>

lemma Next_checked:
  assumes ini: "initialised hash srs d"
    and ids: "\<forall>sv\<in>set inp. \<forall>sd\<in>set (SampleIDs sv). unat sd < length srs"
  shows "fst (duplicateLabelCheckOperator_Next hash None childSeries (Inr inp) d) =
     (if \<exists>(a, b)\<in>set (p d). \<exists>i<length inp. i < 63 \<and> both_alive a b (inp ! i)
      then Inl ErrDuplicateLabelSet else Inr inp)"
proof -
  have once: "once_done d" and pd: "p d = init_pairs hash srs 0 Map.empty []"
    and len: "length (c d) = length srs"
    using ini by (simp_all add: initialised_def)
  have init: "duplicateLabelCheckOperator_init hash childSeries d = (None, d)"
    using once by (simp add: duplicateLabelCheckOperator_init_def)
  have rng: "\<forall>(a, b)\<in>set (p d). a < length (c d) \<and> b < length (c d)"
    using recorded_pairs_collide [of hash srs] pd len by auto
  show ?thesis
  proof (cases "inp = [] \<or> p d = []")
    case True
    then show ?thesis
      by (auto simp add: duplicateLabelCheckOperator_Next_def init)
  next
    case False
    from clear_pairs_zero [OF rng] obtain c0 where
      c0: "clear_pairs (p d) (c d) = Inr c0" "length c0 = length (c d)"
        "\<forall>(a, b)\<in>set (p d). c0 ! a = 0 \<and> c0 ! b = 0"
      by blast
    from mark_steps_total [of inp c0 0] ids c0(2) len obtain c1 where
      c1: "mark_steps 0 inp c0 = Inr c1"
      by auto
    have l1: "length c1 = length (c d)"
      using mark_steps_bits [OF c1] c0(2) by simp
    have rng1: "\<forall>(a, b)\<in>set (p d). a < length c1 \<and> b < length c1"
      using rng l1 by simp
    have meet: "(c1 ! a) AND (c1 ! b) \<noteq> 0 \<longleftrightarrow> (\<exists>i<length inp. i < 63 \<and> both_alive a b (inp ! i))"
      if ab: "(a, b) \<in> set (p d)" for a b
    proof -
      have "a < length c0" "c0 ! a = 0" "b < length c0" "c0 ! b = 0"
        using ab rng c0(2,3) by auto
      then show ?thesis
        unfolding both_alive_def by (rule masks_meet_iff [OF c1])
    qed
    have cond: "(\<exists>(a, b)\<in>set (p d). (c1 ! a) AND (c1 ! b) \<noteq> 0) \<longleftrightarrow>
       (\<exists>(a, b)\<in>set (p d). \<exists>i<length inp. i < 63 \<and> both_alive a b (inp ! i))"
      by (rule bex_cong [OF refl]) (use meet in fastforce)
    have chk: "check_pairs (p d) c1 =
       (if \<exists>(a, b)\<in>set (p d). \<exists>i<length inp. i < 63 \<and> both_alive a b (inp ! i)
        then Some ErrDuplicateLabelSet else None)"
      by (simp only: check_pairs_iff [OF rng1] cond)
    show ?thesis
      using False by (simp add: duplicateLabelCheckOperator_Next_def init c0(1) c1 chk)
  qed
qed

lemma clear_pairs_length: "clear_pairs ps cs = Inr cs' \<Longrightarrow> length cs' = length cs"
  by (induction ps cs rule: clear_pairs.induct) (auto split: if_splits)

lemma mark_steps_length: "mark_steps i svs cs = Inr cs' \<Longrightarrow> length cs' = length cs"
  using mark_steps_bits by blast

lemma Next_keeps_initialised:
  assumes ini: "initialised hash srs d"
  shows "initialised hash srs (snd (duplicateLabelCheckOperator_Next hash ctx childSeries childNext d))"
proof -
  have init: "duplicateLabelCheckOperator_init hash childSeries d = (None, d)"
    using ini by (simp add: duplicateLabelCheckOperator_init_def initialised_def)
  have upd: "initialised hash srs (d\<lparr>c := cs\<rparr>)" if "length cs = length (c d)" for cs
    using ini that by (simp add: initialised_def)
  show ?thesis
  proof (cases "ctx = None \<and> (\<exists>inp. childNext = Inr inp \<and> inp \<noteq> [] \<and> p d \<noteq> [])")
    case False
    then show ?thesis
      using ini by (auto simp add: duplicateLabelCheckOperator_Next_def init split: option.splits sum.splits)
  next
    case True
    then obtain inp where t: "ctx = None" "childNext = Inr inp" "inp \<noteq> []" "p d \<noteq> []"
      by blast
    show ?thesis
    proof (cases "clear_pairs (p d) (c d)")
      case (Inl e)
      then show ?thesis
        using ini t by (simp add: duplicateLabelCheckOperator_Next_def init)
    next
      case c0: (Inr c0)
      have l0: "length c0 = length (c d)" using c0 by (rule clear_pairs_length)
      show ?thesis
      proof (cases "mark_steps 0 inp c0")
        case (Inl e)
        then show ?thesis
          using t c0 upd [OF l0] by (simp add: duplicateLabelCheckOperator_Next_def init)
      next
        case c1: (Inr c1)
        have l1: "length c1 = length (c d)" using mark_steps_length [OF c1] l0 by simp
        show ?thesis
          using t c0 c1 upd [OF l1]
          by (simp add: duplicateLabelCheckOperator_Next_def init split: option.splits)
      qed
    qed
  qed
qed

lemma init_initialises:
  "\<not> once_done d \<Longrightarrow>
   duplicateLabelCheckOperator_init hash (Inr srs) d =
     (None, d\<lparr>once_done := True, p := init_pairs hash srs 0 Map.empty [],
              c := replicate (length srs) 0\<rparr>)
   \<and> initialised hash srs (snd (duplicateLabelCheckOperator_init hash (Inr srs) d))"
  by (simp add: duplicateLabelCheckOperator_init_def initialised_def)

text \<open>
  C2 (as amended): on an initialised operator, for every batch whose sample IDs are below
  the number of series, \<open>Next\<close> fails with DuplicateLabelSet if and only if some recorded
  pair of series both have a sample at the same batch position \<open>i \<le> 62\<close>; otherwise the
  batch is returned unchanged. In particular two colliding series never alive in the same
  step do not trigger the error. Every recorded pair is a pair of distinct series with
  equal label-set hash, and the operator stays initialised, so this holds for every batch.
\<close>

theorem duplicate_check_fails_iff_both_alive:
  assumes ini: "initialised hash srs d"
    and ids: "\<forall>sv\<in>set inp. \<forall>sd\<in>set (SampleIDs sv). unat sd < length srs"
  shows "fst (duplicateLabelCheckOperator_Next hash None childSeries (Inr inp) d) =
           (if \<exists>(a, b)\<in>set (p d). \<exists>i<length inp. i < 63 \<and> both_alive a b (inp ! i)
            then Inl ErrDuplicateLabelSet else Inr inp)
         \<and> (\<forall>(a, b)\<in>set (p d). b < a \<and> a < length srs \<and> hash (srs ! a) = hash (srs ! b))
         \<and> initialised hash srs
             (snd (duplicateLabelCheckOperator_Next hash None childSeries (Inr inp) d))"
proof (intro conjI)
  show "fst (duplicateLabelCheckOperator_Next hash None childSeries (Inr inp) d) =
           (if \<exists>(a, b)\<in>set (p d). \<exists>i<length inp. i < 63 \<and> both_alive a b (inp ! i)
            then Inl ErrDuplicateLabelSet else Inr inp)"
    by (rule Next_checked [OF ini ids])
  show "\<forall>(a, b)\<in>set (p d). b < a \<and> a < length srs \<and> hash (srs ! a) = hash (srs ! b)"
    using recorded_pairs_collide [of hash srs] ini by (simp add: initialised_def)
  show "initialised hash srs
             (snd (duplicateLabelCheckOperator_Next hash None childSeries (Inr inp) d))"
    by (rule Next_keeps_initialised [OF ini])
qed

lemma checked_op_initialised: "initialised (\<lambda>_. 7) two_series checked_op"
  by (simp add: initialised_def two_series_def checked_op_def)

theorem duplicate_check_fails_iff_both_alive_witness:
  "initialised (\<lambda>_. 7) two_series checked_op
   \<and> fst (duplicateLabelCheckOperator_Next (\<lambda>_. 7) None (Inr two_series)
          (Inr [alive [0], alive [1, 0]]) checked_op) = Inl ErrDuplicateLabelSet
   \<and> fst (duplicateLabelCheckOperator_Next (\<lambda>_. 7) None (Inr two_series)
          (Inr [alive [0], alive [1]]) checked_op) = Inr [alive [0], alive [1]]"
proof -
  have i1: "\<forall>sv\<in>set [alive [0], alive [1, 0]]. \<forall>sd\<in>set (SampleIDs sv). unat sd < length two_series"
    by (simp add: alive_def two_series_def)
  have i2: "\<forall>sv\<in>set [alive [0], alive [1]]. \<forall>sd\<in>set (SampleIDs sv). unat sd < length two_series"
    by (simp add: alive_def two_series_def)
  have a1: "\<exists>(a, b)\<in>set (p checked_op). \<exists>i<length [alive [0], alive [1, 0]]. i < 63 \<and>
      both_alive a b ([alive [0], alive [1, 0]] ! i)"
  proof -
    have "(1, 0) \<in> set (p checked_op)"
      by (simp add: checked_op_def)
    moreover have "(1 :: nat) < length [alive [0], alive [1, 0]] \<and> (1 :: nat) < 63
        \<and> both_alive 1 0 ([alive [0], alive [1, 0]] ! 1)"
      by (simp add: both_alive_def alive_def)
    ultimately show ?thesis by blast
  qed
  have n2: "\<not> both_alive 1 0 ([alive [0], alive [1]] ! i)" if "i < 2" for i
  proof -
    from that consider "i = 0" | "i = 1" by linarith
    then show ?thesis by cases (simp_all add: both_alive_def alive_def)
  qed
  have a2: "\<not> (\<exists>(a, b)\<in>set (p checked_op). \<exists>i<length [alive [0], alive [1]]. i < 63 \<and>
      both_alive a b ([alive [0], alive [1]] ! i))"
    using n2 by (simp add: checked_op_def)
  note t1 = duplicate_check_fails_iff_both_alive
    [OF checked_op_initialised i1, of "Inr two_series", THEN conjunct1]
  note t2 = duplicate_check_fails_iff_both_alive
    [OF checked_op_initialised i2, of "Inr two_series", THEN conjunct1]
  have r1: "fst (duplicateLabelCheckOperator_Next (\<lambda>_. 7) None (Inr two_series)
          (Inr [alive [0], alive [1, 0]]) checked_op) = Inl ErrDuplicateLabelSet"
    by (rule trans [OF t1 if_P [OF a1]])
  have r2: "fst (duplicateLabelCheckOperator_Next (\<lambda>_. 7) None (Inr two_series)
          (Inr [alive [0], alive [1]]) checked_op) = Inr [alive [0], alive [1]]"
    by (rule trans [OF t2 if_not_P [OF a2]])
  show ?thesis
    using checked_op_initialised r1 r2 by (intro conjI)
qed

text \<open>
  The claim as stated fails for a batch of 64 steps: the two colliding series both have a
  sample at batch position 63, whose mask \<open>2 << 63\<close> is 0, and the batch is forwarded.
\<close>

theorem duplicate_check_counterexample:
  "(1, 0) \<in> set (p checked_op)
   \<and> both_alive 1 0 ((replicate 63 (alive []) @ [alive [0, 1]]) ! 63)
   \<and> fst (duplicateLabelCheckOperator_Next (\<lambda>_. 7) None (Inr two_series)
          (Inr (replicate 63 (alive []) @ [alive [0, 1]])) checked_op)
       = Inr (replicate 63 (alive []) @ [alive [0, 1]])"
proof -
  let ?inp = "replicate 63 (alive []) @ [alive [0, 1]]"
  have ids: "\<forall>sv\<in>set ?inp. \<forall>sd\<in>set (SampleIDs sv). unat sd < length two_series"
    by (simp add: alive_def two_series_def)
  have no: "\<not> (\<exists>(a, b)\<in>set (p checked_op). \<exists>i<length ?inp. i < 63 \<and> both_alive a b (?inp ! i))"
    by (simp add: checked_op_def both_alive_def alive_def nth_append)
  have "fst (duplicateLabelCheckOperator_Next (\<lambda>_. 7) None (Inr two_series) (Inr ?inp) checked_op)
        = Inr ?inp"
    by (rule trans [OF Next_checked [OF checked_op_initialised ids, of "Inr two_series"] if_not_P [OF no]])
  moreover have "both_alive 1 0 (?inp ! 63)"
    by (simp add: both_alive_def alive_def nth_append)
  moreover have "(1, 0) \<in> set (p checked_op)"
    by (simp add: checked_op_def)
  ultimately show ?thesis by simp
qed

text \<open>
  A property that every iteration of a loop keeps holds after the loop.
\<close>

lemma for_range_invariant:
  "\<forall>i x s s'. P s \<longrightarrow> body i x s = Inr s' \<longrightarrow> P s' \<Longrightarrow> P s \<Longrightarrow>
   for_range body i xs s = Inr s' \<Longrightarrow> P s'"
proof (induction xs arbitrary: i s)
  case Nil
  then show ?case by simp
next
  case (Cons x xs)
  from Cons.prems(3) obtain s1 where b: "body i x s = Inr s1"
    and r: "for_range body (Suc i) xs s1 = Inr s'"
    by (auto split: sum.splits)
  have "P s1" using Cons.prems(1,2) b by blast
  then show ?case using Cons.IH [OF Cons.prems(1) _ r] by simp
qed

lemma set_op_bodies_no_histograms:
  "no_histograms s \<Longrightarrow> and_mark ts i x s = Inr s' \<Longrightarrow> no_histograms s'"
  "no_histograms s \<Longrightarrow> and_emit ts lhs i x s = Inr s' \<Longrightarrow> no_histograms s'"
  "no_histograms s \<Longrightarrow> or_left ts lhs i x s = Inr s' \<Longrightarrow> no_histograms s'"
  "no_histograms s \<Longrightarrow> or_right ts rhs i x s = Inr s' \<Longrightarrow> no_histograms s'"
  "no_histograms s \<Longrightarrow> unless_mark ts i x s = Inr s' \<Longrightarrow> no_histograms s'"
  "no_histograms s \<Longrightarrow> unless_emit ts lhs i x s = Inr s' \<Longrightarrow> no_histograms s'"
  by (auto simp add: no_histograms_def and_mark_def and_emit_def or_left_def or_right_def
      unless_mark_def unless_emit_def AppendSample_def split: sum.splits if_splits prod.splits)

lemma fresh_no_histograms: "no_histograms (v, GetStepVector ts, ws)"
  by (simp add: no_histograms_def GetStepVector_def)

lemma execBinaryAnd_no_histograms:
  assumes "execBinaryAnd v lhs rhs ws = Inr s'" shows "no_histograms s'"
proof -
  from assms obtain s1 where
    a: "for_range (and_mark (T lhs)) 0 (SampleIDs rhs) (v, GetStepVector (T lhs), ws) = Inr s1"
    and b: "for_range (and_emit (T lhs) lhs) 0 (SampleIDs lhs) s1 = Inr s'"
    by (auto simp add: execBinaryAnd_def Let_def split: sum.splits)
  have "no_histograms s1"
    using set_op_bodies_no_histograms(1)
    by (intro for_range_invariant [where P = no_histograms, OF _ fresh_no_histograms a]) blast
  then show ?thesis
    using set_op_bodies_no_histograms(2)
    by (intro for_range_invariant [where P = no_histograms, OF _ _ b]) blast+
qed

lemma execBinaryOr_no_histograms:
  assumes "execBinaryOr v lhs rhs ws = Inr s'" shows "no_histograms s'"
proof -
  from assms obtain s1 where
    a: "for_range (or_left (T lhs) lhs) 0 (SampleIDs lhs) (v, GetStepVector (T lhs), ws) = Inr s1"
    and b: "for_range (or_right (T lhs) rhs) 0 (SampleIDs rhs) s1 = Inr s'"
    by (auto simp add: execBinaryOr_def Let_def split: sum.splits)
  have "no_histograms s1"
    using set_op_bodies_no_histograms(3)
    by (intro for_range_invariant [where P = no_histograms, OF _ fresh_no_histograms a]) blast
  then show ?thesis
    using set_op_bodies_no_histograms(4)
    by (intro for_range_invariant [where P = no_histograms, OF _ _ b]) blast+
qed

lemma execBinaryUnless_no_histograms:
  assumes "execBinaryUnless v lhs rhs ws = Inr s'" shows "no_histograms s'"
proof -
  from assms obtain s1 where
    a: "for_range (unless_mark (T lhs)) 0 (SampleIDs rhs) (v, GetStepVector (T lhs), ws) = Inr s1"
    and b: "for_range (unless_emit (T lhs) lhs) 0 (SampleIDs lhs) s1 = Inr s'"
    by (auto simp add: execBinaryUnless_def Let_def split: sum.splits)
  have "no_histograms s1"
    using set_op_bodies_no_histograms(5)
    by (intro for_range_invariant [where P = no_histograms, OF _ fresh_no_histograms a]) blast
  then show ?thesis
    using set_op_bodies_no_histograms(6)
    by (intro for_range_invariant [where P = no_histograms, OF _ _ b]) blast+
qed

lemma with_histograms_simps:
  "T (with_histograms sv ids hs) = T sv"
  "SampleIDs (with_histograms sv ids hs) = SampleIDs sv"
  "Samples (with_histograms sv ids hs) = Samples sv"
  by (simp_all add: with_histograms_def)

lemma set_op_bodies_ignore_histograms:
  "and_emit ts (with_histograms lhs ids hs) = and_emit ts lhs"
  "or_left ts (with_histograms lhs ids hs) = or_left ts lhs"
  "or_right ts (with_histograms rhs ids hs) = or_right ts rhs"
  "unless_emit ts (with_histograms lhs ids hs) = unless_emit ts lhs"
  unfolding fun_eq_iff and_emit_def or_left_def or_right_def unless_emit_def with_histograms_simps
  by simp_all

lemma set_ops_ignore_histograms:
  "execBinaryAnd v (with_histograms lhs ids hs) (with_histograms rhs ids' hs') ws = execBinaryAnd v lhs rhs ws"
  "execBinaryOr v (with_histograms lhs ids hs) (with_histograms rhs ids' hs') ws = execBinaryOr v lhs rhs ws"
  "execBinaryUnless v (with_histograms lhs ids hs) (with_histograms rhs ids' hs') ws = execBinaryUnless v lhs rhs ws"
  unfolding execBinaryAnd_def execBinaryOr_def execBinaryUnless_def
    set_op_bodies_ignore_histograms with_histograms_simps
  by simp_all

text \<open>
  C9: for the set operators and, or and unless, the step of the vector-vector binary
  operator does not depend on the histograms of its two input step vectors (replacing
  them by any others gives the same result: they are never matched on), and the output
  step of every step that succeeds holds no histogram, only float samples.
\<close>

theorem set_operators_emit_no_histograms:
  assumes op: "opType v = LAND \<or> opType v = LOR \<or> opType v = LUNLESS"
  shows "execBinaryOperation F H v (with_histograms lhs ids hs) (with_histograms rhs ids' hs') ws
           = execBinaryOperation F H v lhs rhs ws
         \<and> (\<forall>v' step ws'. execBinaryOperation F H v lhs rhs ws = Inr (v', step, ws') \<longrightarrow>
               HistogramIDs step = [] \<and> Histograms step = [])"
proof (rule conjI)
  show "execBinaryOperation F H v (with_histograms lhs ids hs) (with_histograms rhs ids' hs') ws
           = execBinaryOperation F H v lhs rhs ws"
    using op by (auto simp add: execBinaryOperation_def set_ops_ignore_histograms)
next
  have "HistogramIDs step = [] \<and> Histograms step = []"
    if r: "execBinaryOperation F H v lhs rhs ws = Inr (v', step, ws')" for v' step ws'
  proof -
    have "no_histograms (v', step, ws')"
      using op r execBinaryAnd_no_histograms [of v lhs rhs ws "(v', step, ws')"]
        execBinaryOr_no_histograms [of v lhs rhs ws "(v', step, ws')"]
        execBinaryUnless_no_histograms [of v lhs rhs ws "(v', step, ws')"]
      by (auto simp add: execBinaryOperation_def)
    then show ?thesis
      by (simp add: no_histograms_def)
  qed
  then show "\<forall>v' step ws'. execBinaryOperation F H v lhs rhs ws = Inr (v', step, ws') \<longrightarrow>
               HistogramIDs step = [] \<and> Histograms step = []"
    by blast
qed

lemma and_example:
  "map_sum id (fst \<circ> snd)
     (execBinaryOperation rat_ops bucket_ops (example_op LAND CardManyToOne)
        (mk_step 5 [(0, 10)] []) (mk_step 5 [(1, 3)] []) [])
   = Inr (mk_step 5 [(108, 10)] [])"
  by (simp add: exec_defs example_op_def mk_step_def bucket0_def)

lemma or_example:
  "map_sum id (fst \<circ> snd)
     (execBinaryOperation rat_ops bucket_ops (example_op LOR CardManyToOne)
        (mk_step 5 [(0, 10)] []) (mk_step 5 [(1, 3)] []) [])
   = Inr (mk_step 5 [(101, 10)] [])"
  by (simp add: exec_defs example_op_def mk_step_def bucket0_def)

theorem set_operators_emit_no_histograms_witness:
  "(opType (example_op LAND CardManyToOne) = LAND \<or> opType (example_op LAND CardManyToOne) = LOR
      \<or> opType (example_op LAND CardManyToOne) = LUNLESS)
   \<and> map_sum id (fst \<circ> snd)
       (execBinaryOperation rat_ops bucket_ops (example_op LAND CardManyToOne)
          (mk_step 5 [(0, 10)] [(1, [1, 2])]) (mk_step 5 [(1, 3)] [(0, [4])]) [])
     = Inr (mk_step 5 [(108, 10)] [])"
proof -
  have op: "opType (example_op LAND CardManyToOne) = LAND \<or> opType (example_op LAND CardManyToOne) = LOR
      \<or> opType (example_op LAND CardManyToOne) = LUNLESS"
    by (simp add: example_op_def)
  have l: "mk_step 5 [(0, 10)] [(1, [1, 2])] = with_histograms (mk_step 5 [(0, 10)] []) [1] [Some [1, 2]]"
    and r: "mk_step 5 [(1, 3)] [(0, [4])] = with_histograms (mk_step 5 [(1, 3)] []) [0] [Some [4]]"
    by (simp_all add: mk_step_def with_histograms_def)
  show ?thesis
    using set_operators_emit_no_histograms [OF op, of rat_ops bucket_ops
        "mk_step 5 [(0, 10)] []" "[1]" "[Some [1, 2]]" "mk_step 5 [(1, 3)] []" "[0]" "[Some [4]]" "[]"]
      op and_example
    unfolding l r by simp
qed

lemma next_loop_pairs:
  "next_loop F H rhs i lhs s = run_pairs F H (zip lhs (drop i rhs)) s"
proof (induction lhs arbitrary: i s)
  case Nil
  then show ?case by simp
next
  case (Cons vector lhs)
  obtain v batch ws where s: "s = (v, batch, ws)" by (cases s)
  show ?case
  proof (cases "i < length rhs")
    case True
    then have d: "drop i rhs = rhs ! i # drop (Suc i) rhs"
      by (simp add: Cons_nth_drop_Suc)
    show ?thesis
      using True Cons.IH by (simp add: s d split: sum.splits)
  next
    case False
    then show ?thesis
      using Cons.IH [of "Suc i" s] by (simp add: s)
  qed
qed

lemma run_pairs_length:
  "run_pairs F H ps (v, batch, ws) = Inr (v', batch', ws') \<Longrightarrow>
   length batch' = length batch + length ps"
proof (induction ps arbitrary: v batch ws)
  case Nil
  then show ?case by simp
next
  case (Cons pr ps)
  obtain l r where pr: "pr = (l, r)" by (cases pr)
  from Cons.prems pr obtain v1 step ws1 where
    "run_pairs F H ps (v1, batch @ [step], ws1) = Inr (v', batch', ws')"
    by (auto split: sum.splits)
  from Cons.IH [OF this] show ?case by simp
qed

text \<open>
  C10: on a context that is not cancelled, with both children returning batches, \<open>Next\<close>
  returns the empty batch (end of stream) as soon as one of the two batches is empty,
  whatever the other holds. Otherwise it evaluates the pairs of steps with equal batch
  index in order, which ignores the steps of \<open>lhs\<close> beyond the length of \<open>rhs\<close>, and a
  call that returns a batch returns exactly \<open>min (len lhs) (len rhs)\<close> steps; a fatal error of
  a step is the other outcome.
\<close>

theorem Next_pairs_steps_by_index:
  assumes ini: "initOnce initRes v = Inr v1"
  shows "(lhs = [] \<or> rhs = [] \<longrightarrow>
            vectorOperator_Next F H None initRes (Inr lhs) (Inr rhs) v ws = Inr (v1, [], ws))
         \<and> vectorOperator_Next F H None initRes (Inr lhs) (Inr rhs) v ws
             = (if lhs = [] \<or> rhs = [] then Inr (v1, [], ws)
                else run_pairs F H (zip lhs rhs) (v1, [], ws))
         \<and> run_pairs F H (zip lhs rhs) (v1, [], ws)
             = run_pairs F H (zip (take (length rhs) lhs) rhs) (v1, [], ws)
         \<and> (\<forall>v' batch ws'.
               vectorOperator_Next F H None initRes (Inr lhs) (Inr rhs) v ws = Inr (v', batch, ws')
               \<longrightarrow> lhs \<noteq> [] \<longrightarrow> rhs \<noteq> [] \<longrightarrow> length batch = min (length lhs) (length rhs))"
proof -
  have N: "vectorOperator_Next F H None initRes (Inr lhs) (Inr rhs) v ws
             = (if lhs = [] \<or> rhs = [] then Inr (v1, [], ws)
                else run_pairs F H (zip lhs rhs) (v1, [], ws))"
    by (simp add: vectorOperator_Next_def ini next_loop_pairs)
  have "zip lhs rhs = take (length rhs) (zip lhs rhs)"
    by simp
  also have "\<dots> = zip (take (length rhs) lhs) (take (length rhs) rhs)"
    by (rule take_zip)
  finally have Z: "zip lhs rhs = zip (take (length rhs) lhs) rhs"
    by simp
  have L: "length batch = min (length lhs) (length rhs)"
    if "vectorOperator_Next F H None initRes (Inr lhs) (Inr rhs) v ws = Inr (v', batch, ws')"
      "lhs \<noteq> []" "rhs \<noteq> []" for v' batch ws'
    using that run_pairs_length [of F H "zip lhs rhs" v1 "[]" ws v' batch ws'] by (simp add: N)
  show ?thesis
  proof (intro conjI)
    show "lhs = [] \<or> rhs = [] \<longrightarrow>
            vectorOperator_Next F H None initRes (Inr lhs) (Inr rhs) v ws = Inr (v1, [], ws)"
      using N by simp
    show "vectorOperator_Next F H None initRes (Inr lhs) (Inr rhs) v ws
             = (if lhs = [] \<or> rhs = [] then Inr (v1, [], ws)
                else run_pairs F H (zip lhs rhs) (v1, [], ws))"
      by (rule N)
    show "run_pairs F H (zip lhs rhs) (v1, [], ws)
             = run_pairs F H (zip (take (length rhs) lhs) rhs) (v1, [], ws)"
      using Z by (rule arg_cong [where f = "\<lambda>ps. run_pairs F H ps (v1, [], ws)"])
    show "\<forall>v' batch ws'.
               vectorOperator_Next F H None initRes (Inr lhs) (Inr rhs) v ws = Inr (v', batch, ws')
               \<longrightarrow> lhs \<noteq> [] \<longrightarrow> rhs \<noteq> [] \<longrightarrow> length batch = min (length lhs) (length rhs)"
      using L by blast
  qed
qed

theorem Next_pairs_steps_by_index_witness:
  "initOnce (Inl (ChildErr ''unused'')) (example_op LOR CardManyToOne) = Inr (example_op LOR CardManyToOne)
   \<and> map_sum id (fst \<circ> snd)
        (vectorOperator_Next rat_ops bucket_ops None (Inl (ChildErr ''unused'')) (Inr lhs3) (Inr rhs2)
           (example_op LOR CardManyToOne) [])
      = Inr [mk_step 5 [(101, 10)] [], mk_step 6 [(101, 11)] []]
   \<and> vectorOperator_Next rat_ops bucket_ops None (Inl (ChildErr ''unused'')) (Inr lhs3) (Inr [])
           (example_op LOR CardManyToOne) []
      = Inr (example_op LOR CardManyToOne, [], [])"
proof -
  have ini: "initOnce (Inl (ChildErr ''unused'')) (example_op LOR CardManyToOne)
      = Inr (example_op LOR CardManyToOne)"
    by (simp add: initOnce_def example_op_def)
  note t = Next_pairs_steps_by_index [OF ini, of _ _ rat_ops bucket_ops "[]"]
  have ne: "\<not> (lhs3 = [] \<or> rhs2 = [])"
    by (simp add: lhs3_def rhs2_def)
  have n: "vectorOperator_Next rat_ops bucket_ops None (Inl (ChildErr ''unused'')) (Inr lhs3) (Inr rhs2)
           (example_op LOR CardManyToOne) []
      = run_pairs rat_ops bucket_ops (zip lhs3 rhs2) (example_op LOR CardManyToOne, [], [])"
    by (rule trans [OF t [of lhs3 rhs2, THEN conjunct2, THEN conjunct1] if_not_P [OF ne]])
  have r: "map_sum id (fst \<circ> snd)
      (run_pairs rat_ops bucket_ops (zip lhs3 rhs2) (example_op LOR CardManyToOne, [], []))
      = Inr [mk_step 5 [(101, 10)] [], mk_step 6 [(101, 11)] []]"
    by (simp add: lhs3_def rhs2_def exec_defs example_op_def mk_step_def bucket0_def)
  have e: "vectorOperator_Next rat_ops bucket_ops None (Inl (ChildErr ''unused'')) (Inr lhs3) (Inr [])
           (example_op LOR CardManyToOne) []
      = Inr (example_op LOR CardManyToOne, [], [])"
    by (rule t [of lhs3 "[]", THEN conjunct1, THEN mp]) simp
  show ?thesis
    using ini e by (simp only: n r simp_thms)
qed

text \<open>
  C4 (as amended): every \<open>Next\<close> (scalar, absent, vector-scalar, vector-vector, duplicate
  check) checks the context at entry and returns the context's error when it is
  cancelled. No \<open>Series\<close> checks the context: on a cancelled context the scalar operator
  still returns its empty series and the absent operator its synthesized series, and the
  others return their series whenever their initialisation and children raise no error.
\<close>

theorem Next_checks_context_Series_does_not:
  "scalarOperator_Next F (Some e) child = Inl (CtxErr e)
   \<and> absentOperator_Next F (Some e) child = Inl (CtxErr e)
   \<and> binary_scalarOperator_Next F o' (Some e) childNext loadRes scalarNext = Inl (CtxErr e)
   \<and> vectorOperator_Next F H (Some e) initRes lres rres v ws = Inl (CtxErr e)
   \<and> fst (duplicateLabelCheckOperator_Next hash (Some e) childSeries dupNext d) = Inl (CtxErr e)
   \<and> scalarOperator_Series (Some e) = Inr []
   \<and> absentOperator_Series arg (Some e) = Inr (absentOperator_loadSeries arg)
   \<and> binary_scalarOperator_Series o' (Some e) None = Inr (so_series o')
   \<and> vectorOperator_Series (Some e) initRes (v\<lparr>once := True\<rparr>) = Inr (series v, v\<lparr>once := True\<rparr>)
   \<and> fst (duplicateLabelCheckOperator_Series hash (Some e) (Inr srs) d) = Inr srs"
  by (simp add: scalarOperator_Next_def absentOperator_Next_def binary_scalarOperator_Next_def
      vectorOperator_Next_def duplicateLabelCheckOperator_Next_def scalarOperator_Series_def
      absentOperator_Series_def binary_scalarOperator_Series_def vectorOperator_Series_def
      duplicateLabelCheckOperator_Series_def duplicateLabelCheckOperator_init_def initOnce_def)

text \<open>
  The claim as stated fails for \<open>Series\<close>: with a cancelled context the scalar operator's
  \<open>Series\<close> returns no error.
\<close>

theorem Series_ignores_cancellation_counterexample:
  "scalarOperator_Series (Some ''context canceled'') = Inr []
   \<and> scalarOperator_Series (Some ''context canceled'') \<noteq> Inl (CtxErr ''context canceled'')"
  by (simp add: scalarOperator_Series_def)

end
